theory Spec2Isabelle
  imports Complex_Main
begin

text \<open>
  The arbitrage scanner of the Polymarket plugin, in its three copies: the plugin
  service (\<open>PolyClaudeService\<close> with \<open>TelegramBotService\<close> and
  \<open>TerminalServer\<close>), the standalone server (\<open>PolyClaudeServer\<close> with the
  near-miss and live-market arrays) and the serverless endpoint (\<open>api/scan.js\<close>).
  Network calls and the clock are inputs of the model; asynchronous calls are run to
  completion in the order the source awaits them.
\<close>

section \<open>JavaScript numbers\<close>

text \<open>
  A JavaScript number is an IEEE 754 binary64 value: a finite double (modelled by its
  real value), an infinity or \<open>NaN\<close>. The negative zero is identified with zero; the
  only place where its sign could show is a division by zero, and the divisors of the
  scanner are constants or a sum of two non-zero prices, which is never the negative
  zero.
\<close>

datatype number = Number real | PosInfinity | NegInfinity | NaN

text \<open>
  Rounding to the nearest double, ties to even. \<open>rne\<close> rounds a real to the nearest
  integer, ties to even; \<open>ulpExp x\<close> is the exponent of the unit in the last place at
  \<open>x\<close> (52 below the exponent of \<open>x\<close>, and never below the subnormal exponent
  -1074); \<open>rnd\<close> rounds to a multiple of that unit; \<open>rd\<close> adds the overflow to
  an infinity. A decimal literal \<open>c\<close> of the source denotes \<open>rd c\<close>.
\<close>

definition rne :: "real \<Rightarrow> int" where
  "rne y =
     (let f = \<lfloor>y\<rfloor>; r = y - of_int f
      in if r < 1 / 2 then f
         else if r > 1 / 2 then f + 1
         else if even f then f else f + 1)"

definition ulpExp :: "real \<Rightarrow> int" where
  "ulpExp x = max (\<lfloor>log 2 \<bar>x\<bar>\<rfloor> - 52) (- 1074)"

definition rnd :: "real \<Rightarrow> real" where
  "rnd x =
     (if x = 0 then 0
      else of_int (rne (x / 2 powr of_int (ulpExp x))) * 2 powr of_int (ulpExp x))"

definition rd :: "real \<Rightarrow> number" where
  "rd x =
     (if rnd x \<ge> 2 ^ 1024 then PosInfinity
      else if rnd x \<le> - (2 ^ 1024) then NegInfinity
      else Number (rnd x))"

text \<open>The roundings that the examples below need are collected as \<open>rd_vals\<close>.\<close>

named_theorems rd_vals

text \<open>Comparisons: every comparison with \<open>NaN\<close> is false.\<close>

fun js_lt :: "number \<Rightarrow> number \<Rightarrow> bool" where
  "js_lt (Number a) (Number b) = (a < b)"
| "js_lt NaN _ = False"
| "js_lt _ NaN = False"
| "js_lt PosInfinity _ = False"
| "js_lt _ PosInfinity = True"
| "js_lt NegInfinity NegInfinity = False"
| "js_lt NegInfinity _ = True"
| "js_lt _ NegInfinity = False"

definition js_gt :: "number \<Rightarrow> number \<Rightarrow> bool" where
  [simp]: "js_gt a b = js_lt b a"

definition js_le :: "number \<Rightarrow> number \<Rightarrow> bool" where
  "js_le a b = (a \<noteq> NaN \<and> b \<noteq> NaN \<and> \<not> js_lt b a)"

definition js_ge :: "number \<Rightarrow> number \<Rightarrow> bool" where
  "js_ge a b = js_le b a"

text \<open>Truthiness of a number: \<open>NaN\<close> and 0 are falsy.\<close>

definition truthyNum :: "number \<Rightarrow> bool" where
  "truthyNum n = (n \<noteq> NaN \<and> n \<noteq> Number 0)"

text \<open>Arithmetic: the exact result, rounded.\<close>

fun js_neg :: "number \<Rightarrow> number" where
  "js_neg (Number a) = Number (- a)"
| "js_neg PosInfinity = NegInfinity"
| "js_neg NegInfinity = PosInfinity"
| "js_neg NaN = NaN"

fun js_add :: "number \<Rightarrow> number \<Rightarrow> number" where
  "js_add (Number a) (Number b) = rd (a + b)"
| "js_add NaN _ = NaN"
| "js_add _ NaN = NaN"
| "js_add PosInfinity NegInfinity = NaN"
| "js_add NegInfinity PosInfinity = NaN"
| "js_add PosInfinity _ = PosInfinity"
| "js_add _ PosInfinity = PosInfinity"
| "js_add NegInfinity _ = NegInfinity"
| "js_add _ NegInfinity = NegInfinity"

definition js_sub :: "number \<Rightarrow> number \<Rightarrow> number" where
  "js_sub a b = js_add a (js_neg b)"

fun js_mul :: "number \<Rightarrow> number \<Rightarrow> number" where
  "js_mul (Number a) (Number b) = rd (a * b)"
| "js_mul NaN _ = NaN"
| "js_mul _ NaN = NaN"
| "js_mul (Number a) i =
     (if a = 0 then NaN else if (0 < a) = (i = PosInfinity) then PosInfinity else NegInfinity)"
| "js_mul i (Number b) =
     (if b = 0 then NaN else if (0 < b) = (i = PosInfinity) then PosInfinity else NegInfinity)"
| "js_mul i j = (if i = j then PosInfinity else NegInfinity)"

fun js_div :: "number \<Rightarrow> number \<Rightarrow> number" where
  "js_div (Number a) (Number b) =
     (if b = 0 then (if a = 0 then NaN else if 0 < a then PosInfinity else NegInfinity)
      else rd (a / b))"
| "js_div NaN _ = NaN"
| "js_div _ NaN = NaN"
| "js_div (Number a) i = Number 0"
| "js_div i (Number b) =
     (if (0 \<le> b) = (i = PosInfinity) then PosInfinity else NegInfinity)"
| "js_div i j = NaN"

fun js_abs :: "number \<Rightarrow> number" where
  "js_abs (Number a) = Number \<bar>a\<bar>"
| "js_abs NaN = NaN"
| "js_abs _ = PosInfinity"

text \<open>\<open>Math.min\<close> and \<open>Math.max\<close> of two numbers.\<close>

definition js_min :: "number \<Rightarrow> number \<Rightarrow> number" where
  "js_min a b = (if a = NaN \<or> b = NaN then NaN else if js_lt b a then b else a)"

definition js_max :: "number \<Rightarrow> number \<Rightarrow> number" where
  "js_max a b = (if a = NaN \<or> b = NaN then NaN else if js_lt a b then b else a)"

text \<open>
  \<open>Array.prototype.sort\<close> with a comparator is a stable sort. \<open>after x y\<close> says that
  the comparator is positive at \<open>(x, y)\<close>, so that \<open>x\<close> belongs after \<open>y\<close>. Where
  the comparator is a consistent order the result is that of this stable insertion
  sort; where it returns \<open>NaN\<close> the language leaves the order to the implementation,
  and the model lets such a pair stand as it is.
\<close>

fun insertSorted :: "('a \<Rightarrow> 'a \<Rightarrow> bool) \<Rightarrow> 'a \<Rightarrow> 'a list \<Rightarrow> 'a list" where
  "insertSorted after x [] = [x]"
| "insertSorted after x (y # ys) =
     (if after x y then y # insertSorted after x ys else x # y # ys)"

definition sortBy :: "('a \<Rightarrow> 'a \<Rightarrow> bool) \<Rightarrow> 'a list \<Rightarrow> 'a list" where
  "sortBy after xs = foldr (insertSorted after) xs []"

section \<open>Risk scoring\<close>

datatype riskLevel = LOW | MEDIUM | HIGH | EXTREME

text \<open>\<open>getRiskLevel\<close> (the same function in the service and in the standalone server).\<close>

definition getRiskLevel :: "int \<Rightarrow> riskLevel" where
  "getRiskLevel score =
     (if score \<le> 3 then LOW
      else if score \<le> 5 then MEDIUM
      else if score \<le> 7 then HIGH
      else EXTREME)"

record risk =
  score :: int
  factors :: "string list"

text \<open>
  \<open>calculateRiskScore\<close>: the mutable pair \<open>(score, factors)\<close> is threaded through the
  four checks in the order of the source; \<open>factors.push\<close> appends at the end. The
  literals 0.05 and 0.02 are the doubles \<open>rd 0.05\<close> and \<open>rd 0.02\<close>.
\<close>

definition calculateRiskScore :: "number \<Rightarrow> number \<Rightarrow> number \<Rightarrow> number \<Rightarrow> risk" where
  "calculateRiskScore profitPercent liquidity spread daysToExpiry =
     (let sf = (3 :: int, [] :: string list);
          sf = (if js_lt liquidity (Number 500)
                then (fst sf + 2, snd sf @ [''low_liquidity''])
                else if js_lt liquidity (Number 1000)
                then (fst sf + 1, snd sf @ [''moderate_liquidity''])
                else sf);
          sf = (if js_gt spread (rd 0.05)
                then (fst sf + 2, snd sf @ [''wide_spread''])
                else if js_gt spread (rd 0.02)
                then (fst sf + 1, snd sf @ [''moderate_spread''])
                else sf);
          sf = (if js_lt daysToExpiry (Number 1)
                then (fst sf + 2, snd sf @ [''expiring_soon''])
                else if js_lt daysToExpiry (Number 7)
                then (fst sf + 1, snd sf @ [''short_expiry''])
                else sf);
          sf = (if js_lt profitPercent (Number 1)
                then (fst sf + 1, snd sf @ [''thin_margin''])
                else sf)
      in \<lparr>score = min (fst sf) 10, factors = snd sf\<rparr>)"

text \<open>
  The penalties and tags as the specification words them, one definition per check,
  to compare with the function above.
\<close>

definition liquidityPenalty :: "number \<Rightarrow> int" where
  "liquidityPenalty l = (if js_lt l (Number 500) then 2 else if js_lt l (Number 1000) then 1 else 0)"

definition spreadPenalty :: "number \<Rightarrow> int" where
  "spreadPenalty s = (if js_gt s (rd 0.05) then 2 else if js_gt s (rd 0.02) then 1 else 0)"

definition expiryPenalty :: "number \<Rightarrow> int" where
  "expiryPenalty d = (if js_lt d (Number 1) then 2 else if js_lt d (Number 7) then 1 else 0)"

definition marginPenalty :: "number \<Rightarrow> int" where
  "marginPenalty p = (if js_lt p (Number 1) then 1 else 0)"

definition liquidityTag :: "number \<Rightarrow> string list" where
  "liquidityTag l =
     (if js_lt l (Number 500) then [''low_liquidity'']
      else if js_lt l (Number 1000) then [''moderate_liquidity''] else [])"

definition spreadTag :: "number \<Rightarrow> string list" where
  "spreadTag s =
     (if js_gt s (rd 0.05) then [''wide_spread'']
      else if js_gt s (rd 0.02) then [''moderate_spread''] else [])"

definition expiryTag :: "number \<Rightarrow> string list" where
  "expiryTag d =
     (if js_lt d (Number 1) then [''expiring_soon'']
      else if js_lt d (Number 7) then [''short_expiry''] else [])"

definition marginTag :: "number \<Rightarrow> string list" where
  "marginTag p = (if js_lt p (Number 1) then [''thin_margin''] else [])"

section \<open>Order books and markets\<close>

text \<open>
  A price level of an order book as the CLOB API returns it. A field is \<open>None\<close> when
  the raw JSON field is falsy (absent, \<open>null\<close>, the empty string or the number 0) and
  \<open>Some n\<close> when it is truthy and \<open>parseFloat\<close> maps it to \<open>n\<close>; the string
  \<open>"0"\<close> is truthy and parses to \<open>Number 0\<close>, the string \<open>"0.40"\<close> to \<open>rd 0.40\<close>.
\<close>

record level =
  price :: "number option"
  size_l :: "number option"

text \<open>A side is \<open>None\<close> when the book has no such array.\<close>

record book =
  asks :: "level list option"
  bids :: "level list option"

text \<open>
  A market of the catalog. \<open>tokens\<close> holds the token ids (\<open>None\<close>: the market has
  no \<open>tokens\<close> array); \<open>end_date_iso\<close> is the millisecond timestamp that
  \<open>new Date(market.end_date_iso).getTime()\<close> gives, \<open>NaN\<close> for an invalid date.
\<close>

record clobMarket =
  condition_id :: string
  market_slug :: string
  question :: string
  end_date_iso :: number
  tokens :: "string list option"
  active :: bool
  closed_m :: bool
  enable_order_book :: bool

record config =
  minProfitPercent :: number
  maxRiskScore :: number
  scanIntervalMs :: number
  minLiquidity :: "number option"

definition DEFAULT_CONFIG :: config where
  "DEFAULT_CONFIG =
     \<lparr>minProfitPercent = Number 0.5, maxRiskScore = Number 7, scanIntervalMs = Number 30000,
      minLiquidity = Some (Number 100)\<rparr>"

text \<open>\<open>side?.[0]?.price ? parseFloat(side[0].price) : null\<close>\<close>

definition bestPrice :: "level list option \<Rightarrow> number option" where
  "bestPrice side = (case side of None \<Rightarrow> None | Some [] \<Rightarrow> None | Some (l # _) \<Rightarrow> price l)"

text \<open>
  The test \<open>!x\<close> on a best price: \<open>null\<close>, \<open>NaN\<close> and 0 are falsy. \<open>truthy\<close> returns
  the value of a price that passes the test.
\<close>

fun truthy :: "number option \<Rightarrow> number option" where
  "truthy None = None"
| "truthy (Some NaN) = None"
| "truthy (Some (Number x)) = (if x = 0 then None else Some (Number x))"
| "truthy (Some i) = Some i"

text \<open>
  The four best prices and the guard
  \<open>if (!yesBestAsk || !yesBestBid || !noBestAsk || !noBestBid) return null\<close>:
  the result is (yesBestAsk, yesBestBid, noBestAsk, noBestBid).
\<close>

definition bestPrices :: "book \<Rightarrow> book \<Rightarrow> (number \<times> number \<times> number \<times> number) option" where
  "bestPrices yesBook noBook =
     (case truthy (bestPrice (asks yesBook)) of None \<Rightarrow> None | Some yesBestAsk \<Rightarrow>
      (case truthy (bestPrice (bids yesBook)) of None \<Rightarrow> None | Some yesBestBid \<Rightarrow>
       (case truthy (bestPrice (asks noBook)) of None \<Rightarrow> None | Some noBestAsk \<Rightarrow>
        (case truthy (bestPrice (bids noBook)) of None \<Rightarrow> None | Some noBestBid \<Rightarrow>
           Some (yesBestAsk, yesBestBid, noBestAsk, noBestBid)))))"

text \<open>
  \<open>book.asks?.reduce((sum, a) => sum + parseFloat(a.size || '0'), 0) || 0\<close>:
  a falsy size counts 0, and a sum that is \<open>NaN\<close> (or 0) becomes 0.
\<close>

definition sizeOf :: "level \<Rightarrow> number" where
  "sizeOf a = (case size_l a of None \<Rightarrow> Number 0 | Some n \<Rightarrow> n)"

definition liquidityOf :: "level list option \<Rightarrow> number" where
  "liquidityOf side =
     (case side of None \<Rightarrow> Number 0
      | Some ls \<Rightarrow>
          (let total = foldl (\<lambda>sum a. js_add sum (sizeOf a)) (Number 0) ls
           in if truthyNum total then total else Number 0))"

section \<open>Pricing and the opportunity record\<close>

datatype direction = BUY_BOTH | SELL_BOTH | NONE

record pricing =
  pCombinedAsk :: number
  pCombinedBid :: number
  pBuyBothProfit :: number
  pSellBothProfit :: number
  pDirection :: direction
  pGrossProfitPercent :: number

text \<open>
  The pricing step of \<open>scanMarket\<close> (and of \<open>scanMarketForArbitrage\<close>): combined
  prices, the two profits, and the direction with its gross profit percent
  (\<open>arbDirection\<close> starts as \<open>NONE\<close> and \<open>grossProfitPercent\<close> as 0).
\<close>

definition pricingAnalyzer :: "number \<Rightarrow> number \<Rightarrow> number \<Rightarrow> number \<Rightarrow> pricing" where
  "pricingAnalyzer yesBestAsk yesBestBid noBestAsk noBestBid =
     (let cAsk = js_add yesBestAsk noBestAsk;
          cBid = js_add yesBestBid noBestBid;
          buyBoth = js_sub (Number 1) cAsk;
          sellBoth = js_sub cBid (Number 1);
          dg = (if js_gt buyBoth (Number 0)
                then (BUY_BOTH, js_mul (js_div buyBoth cAsk) (Number 100))
                else if js_gt sellBoth (Number 0)
                then (SELL_BOTH, js_mul (js_div sellBoth (Number 1)) (Number 100))
                else (NONE, Number 0))
      in \<lparr>pCombinedAsk = cAsk, pCombinedBid = cBid, pBuyBothProfit = buyBoth,
          pSellBothProfit = sellBoth, pDirection = fst dg, pGrossProfitPercent = snd dg\<rparr>)"

record tokenData =
  tokenId :: string
  bestBid :: number
  bestAsk :: number
  midpoint :: number

record intraMarketData =
  yesToken :: tokenData
  noToken :: tokenData
  combinedAsk :: number
  combinedBid :: number
  buyBothProfit :: number
  sellBothProfit :: number
  arbDirection :: direction

text \<open>
  The opportunity record. \<open>marketId\<close> is \<open>market.marketId\<close> and \<open>market.conditionId\<close>
  (both \<open>market.condition_id\<close>); the random \<open>id\<close> and the display fields of
  \<open>market\<close> are left out; \<open>discoveredAt\<close> is the clock reading.
\<close>

record opportunity =
  marketId :: string
  status :: string
  intraMarket :: intraMarketData
  grossProfitPercent :: number
  grossProfitAbsolute :: number
  estimatedFees :: number
  estimatedGas :: number
  netProfitPercent :: number
  netProfitAbsolute :: number
  breakeven :: number
  oppRiskLevel :: riskLevel
  riskScore :: int
  riskFactors :: "string list"
  confidenceScore :: number
  recommendedSize :: number
  maxSize :: number
  discoveredAt :: real

text \<open>
  \<open>(new Date(market.end_date_iso).getTime() - Date.now()) / (1000 * 60 * 60 * 24)\<close>;
  the product of the four integers is exact.
\<close>

definition daysToExpiryOf :: "number \<Rightarrow> real \<Rightarrow> number" where
  "daysToExpiryOf endTime now = js_div (js_sub endTime (Number now)) (Number (1000 * 60 * 60 * 24))"

text \<open>
  The spread that is passed to the risk scorer:
  \<open>((yesBestAsk - yesBestBid) + (noBestAsk - noBestBid)) / 2\<close>.
\<close>

definition avgSpreadOf :: "number \<Rightarrow> number \<Rightarrow> number \<Rightarrow> number \<Rightarrow> number" where
  "avgSpreadOf yesBestAsk yesBestBid noBestAsk noBestBid =
     js_div (js_add (js_sub yesBestAsk yesBestBid) (js_sub noBestAsk noBestBid)) (Number 2)"

text \<open>
  The rest of \<open>scanMarket\<close> once the four best prices are known: pricing, the profit
  threshold, the liquidity threshold (\<open>config.minLiquidity && ...\<close>: skipped when the
  option is undefined or falsy), the risk threshold, fees and the record. The same code
  ends \<open>scanMarketForArbitrage\<close> of the standalone server.
\<close>

definition buildOpportunity ::
  "config \<Rightarrow> real \<Rightarrow> clobMarket \<Rightarrow> string \<Rightarrow> string \<Rightarrow> number \<Rightarrow> number
     \<Rightarrow> number \<Rightarrow> number \<Rightarrow> number \<Rightarrow> number \<Rightarrow> opportunity option" where
  "buildOpportunity cfg now m yesId noId yesLiquidity noLiquidity
       yesBestAsk yesBestBid noBestAsk noBestBid =
     (let pr = pricingAnalyzer yesBestAsk yesBestBid noBestAsk noBestBid;
          gross = pGrossProfitPercent pr
      in if pDirection pr = NONE \<or> js_lt gross (minProfitPercent cfg) then None
         else
           let minLiq = js_min yesLiquidity noLiquidity
           in if (case minLiquidity cfg of None \<Rightarrow> False
                  | Some c \<Rightarrow> truthyNum c \<and> js_lt minLiq c)
              then None
              else
                let daysToExpiry = daysToExpiryOf (end_date_iso m) now;
                    avgSpread = avgSpreadOf yesBestAsk yesBestBid noBestAsk noBestBid;
                    r = calculateRiskScore gross minLiq avgSpread daysToExpiry
                in if js_gt (Number (of_int (score r))) (maxRiskScore cfg) then None
                   else
                     let fees = rd 0.01;
                         gas = rd 0.002;
                         grossAbs = (if pDirection pr = BUY_BOTH then pBuyBothProfit pr
                                     else pSellBothProfit pr)
                     in Some
                       \<lparr>marketId = condition_id m,
                        status = ''active'',
                        intraMarket =
                          \<lparr>yesToken = \<lparr>tokenId = yesId, bestBid = yesBestBid,
                                       bestAsk = yesBestAsk,
                                       midpoint = js_div (js_add yesBestBid yesBestAsk)
                                                    (Number 2)\<rparr>,
                           noToken = \<lparr>tokenId = noId, bestBid = noBestBid,
                                      bestAsk = noBestAsk,
                                      midpoint = js_div (js_add noBestBid noBestAsk)
                                                   (Number 2)\<rparr>,
                           combinedAsk = pCombinedAsk pr,
                           combinedBid = pCombinedBid pr,
                           buyBothProfit = pBuyBothProfit pr,
                           sellBothProfit = pSellBothProfit pr,
                           arbDirection = pDirection pr\<rparr>,
                        grossProfitPercent = gross,
                        grossProfitAbsolute = grossAbs,
                        estimatedFees = fees,
                        estimatedGas = gas,
                        netProfitPercent =
                          js_sub (js_sub gross (js_mul fees (Number 100)))
                            (js_mul gas (Number 100)),
                        netProfitAbsolute = js_sub (js_sub grossAbs fees) gas,
                        breakeven = js_add fees gas,
                        oppRiskLevel = getRiskLevel (score r),
                        riskScore = score r,
                        riskFactors = factors r,
                        confidenceScore =
                          (if score r \<le> 3 then rd 0.95 else if score r \<le> 5 then rd 0.8
                           else rd 0.6),
                        recommendedSize = js_min (js_mul minLiq (rd 0.1)) (Number 1000),
                        maxSize = js_mul minLiq (Number 0.5),
                        discoveredAt = now\<rparr>)"

section \<open>The service: scanning one market\<close>

datatype exn = TypeError | HttpError

text \<open>
  The body of the \<open>try\<close> block of \<open>PolyClaudeService.scanMarket\<close>. Reading
  \<open>market.tokens[0]\<close> of a market without tokens, or \<open>.token_id\<close> of a token that is
  not there, throws. \<open>getOrderBook\<close> is the collaborator: \<open>None\<close> stands for a
  rejected fetch (turned into \<open>null\<close> by \<open>.catch\<close>) or a falsy book.
\<close>

definition scanMarket_try ::
  "config \<Rightarrow> real \<Rightarrow> (string \<Rightarrow> book option) \<Rightarrow> clobMarket \<Rightarrow> exn + opportunity option" where
  "scanMarket_try cfg now getOrderBook m =
     (case tokens m of
        Some (yesId # noId # _) \<Rightarrow>
          (case getOrderBook yesId of None \<Rightarrow> Inr None | Some yesBook \<Rightarrow>
           (case getOrderBook noId of None \<Rightarrow> Inr None | Some noBook \<Rightarrow>
            (case bestPrices yesBook noBook of None \<Rightarrow> Inr None
             | Some (yesBestAsk, yesBestBid, noBestAsk, noBestBid) \<Rightarrow>
                 Inr (buildOpportunity cfg now m yesId noId
                        (liquidityOf (asks yesBook)) (liquidityOf (asks noBook))
                        yesBestAsk yesBestBid noBestAsk noBestBid))))
      | _ \<Rightarrow> Inl TypeError)"

text \<open>\<open>scanMarket\<close>: the \<open>catch\<close> turns every exception into \<open>null\<close>.\<close>

definition scanMarket ::
  "config \<Rightarrow> real \<Rightarrow> (string \<Rightarrow> book option) \<Rightarrow> clobMarket \<Rightarrow> opportunity option" where
  "scanMarket cfg now getOrderBook m =
     (case scanMarket_try cfg now getOrderBook m of Inl _ \<Rightarrow> None | Inr r \<Rightarrow> r)"

section \<open>The service: Telegram alert gate\<close>

text \<open>
  \<open>TelegramBotService\<close>: \<open>configured\<close> stands for
  \<open>config.enabled && config.botToken && config.chatId\<close>; \<open>lastAlertTime\<close> is the
  \<open>Map\<close> from market ids to the time of the last alert, in milliseconds.
\<close>

record telegramBot =
  configured :: bool
  lastAlertTime :: "string \<rightharpoonup> real"
  cooldownMs :: real

text \<open>
  \<open>shouldSendAlert\<close>: \<open>!lastTime\<close> holds for a missing entry and for the time 0.
\<close>

definition shouldSendAlert :: "telegramBot \<Rightarrow> real \<Rightarrow> string \<Rightarrow> bool" where
  "shouldSendAlert gate now mid =
     (case lastAlertTime gate mid of
        None \<Rightarrow> True
      | Some lastTime \<Rightarrow> if lastTime = 0 then True else now - lastTime > cooldownMs gate)"

text \<open>
  \<open>sendMessage\<close>: \<open>delivered\<close> is the outcome of the HTTP request (the response was
  read and its \<open>ok\<close> field is true); a thrown error is caught and counts as a failure.
\<close>

definition sendMessage :: "telegramBot \<Rightarrow> bool \<Rightarrow> bool" where
  "sendMessage gate delivered = (if \<not> configured gate then False else delivered)"

text \<open>
  \<open>sendArbitrageAlert\<close>: \<open>nowCheck\<close> and \<open>nowStamp\<close> are the two readings of
  \<open>Date.now()\<close>, \<open>markdownOk\<close> and \<open>plainOk\<close> the outcomes of the two requests (the
  second is made only when the first fails). Returns the result and the new gate.
\<close>

definition sendArbitrageAlert ::
  "telegramBot \<Rightarrow> real \<Rightarrow> real \<Rightarrow> bool \<Rightarrow> bool \<Rightarrow> opportunity \<Rightarrow> bool \<times> telegramBot" where
  "sendArbitrageAlert gate nowCheck nowStamp markdownOk plainOk opp =
     (if \<not> shouldSendAlert gate nowCheck (marketId opp) then (False, gate)
      else
        let success = sendMessage gate markdownOk;
            success = (if \<not> success then sendMessage gate plainOk else success)
        in if success
           then (success, gate\<lparr>lastAlertTime := (lastAlertTime gate)(marketId opp \<mapsto> nowStamp)\<rparr>)
           else (success, gate))"

definition clearCooldown :: "telegramBot \<Rightarrow> string \<Rightarrow> telegramBot" where
  "clearCooldown gate mid = gate\<lparr>lastAlertTime := (lastAlertTime gate)(mid := None)\<rparr>"

definition clearAllCooldowns :: "telegramBot \<Rightarrow> telegramBot" where
  "clearAllCooldowns gate = gate\<lparr>lastAlertTime := Map.empty\<rparr>"

section \<open>The service: terminal server state\<close>

datatype priority = P_CRITICAL | P_HIGH | P_MEDIUM | P_LOW

record arbitrageAlert =
  alertOpportunity :: opportunity
  alertTimestamp :: real
  alertPriority :: priority

record scannerStats =
  totalScans :: nat
  totalOpportunitiesFound :: nat
  activeOpportunities :: nat
  totalProfitCaptured :: real
  lastScanAt :: "real option"
  uptime :: real
  marketsScanned :: nat

record terminalState =
  alerts :: "arbitrageAlert list"
  ts_stats :: scannerStats
  ts_isScanning :: bool
  lastUpdate :: real

text \<open>\<open>TerminalServer.addAlert\<close>: the alert is put in front and the list cut to 100.\<close>

definition TerminalServer_addAlert :: "real \<Rightarrow> terminalState \<Rightarrow> opportunity \<Rightarrow> terminalState" where
  "TerminalServer_addAlert now st opp =
     (let alert = \<lparr>alertOpportunity = opp, alertTimestamp = now,
                   alertPriority =
                     (if js_ge (netProfitPercent opp) (Number 3) then P_CRITICAL
                      else if js_ge (netProfitPercent opp) (Number 2) then P_HIGH
                      else if js_ge (netProfitPercent opp) (Number 1) then P_MEDIUM
                      else P_LOW)\<rparr>;
          as = alert # alerts st;
          as = (if length as > 100 then take 100 as else as)
      in st\<lparr>alerts := as,
            ts_stats := (ts_stats st)
              \<lparr>totalOpportunitiesFound := totalOpportunitiesFound (ts_stats st) + 1,
               activeOpportunities :=
                 length (filter (\<lambda>a. status (alertOpportunity a) = ''active'') as)\<rparr>,
            lastUpdate := now\<rparr>)"

text \<open>\<open>TerminalServer.addAlerts\<close>: one \<open>addAlert\<close> per opportunity, in order.\<close>

fun TerminalServer_addAlerts :: "real \<Rightarrow> terminalState \<Rightarrow> opportunity list \<Rightarrow> terminalState" where
  "TerminalServer_addAlerts now st [] = st"
| "TerminalServer_addAlerts now st (opp # opps) =
     TerminalServer_addAlerts now (TerminalServer_addAlert now st opp) opps"

text \<open>\<open>updateStats\<close>, called with a full \<open>ScannerStats\<close> object, replaces every field.\<close>

definition updateStats :: "real \<Rightarrow> terminalState \<Rightarrow> scannerStats \<Rightarrow> terminalState" where
  "updateStats now st updates = st\<lparr>ts_stats := updates, lastUpdate := now\<rparr>"

definition setScanning :: "bool \<Rightarrow> terminalState \<Rightarrow> terminalState" where
  "setScanning b st = st\<lparr>ts_isScanning := b\<rparr>"

section \<open>The service: the scan cycle\<close>

record service =
  svc_config :: config
  telegram :: "telegramBot option"
  terminalServer :: "terminalState option"
  isScanning :: bool
  stats :: scannerStats

text \<open>
  What one cycle reads from outside: the catalog (\<open>None\<close>: the client could not be
  initialised or \<open>getMarkets\<close> rejected), the order books by token id, the clock (read
  as one value during the cycle) and, per market id, the outcomes of the two Telegram
  requests.
\<close>

record scanEnv =
  envMarkets :: "clobMarket list option"
  envOrderBook :: "string \<Rightarrow> book option"
  envNow :: real
  envDelivered :: "string \<Rightarrow> bool \<times> bool"

text \<open>
  The batch loop \<open>for (let i = 0; i < n; i += batchSize)\<close>: every batch is scanned and
  the non-null results are appended in catalog order. The scan of one market does not
  depend on the others, so the batch is a map. A batch size of 0 does not occur (the
  sources use 10).
\<close>

function batchedScan :: "nat \<Rightarrow> ('a \<Rightarrow> 'b option) \<Rightarrow> 'a list \<Rightarrow> 'b list" where
  "batchedScan batchSize scan ms =
     (if ms = [] \<or> batchSize = 0 then []
      else List.map_filter scan (take batchSize ms)
           @ batchedScan batchSize scan (drop batchSize ms))"
  by pat_completeness auto
termination
  by (relation "measure (\<lambda>(batchSize, scan, ms). length ms)") auto

declare batchedScan.simps [simp del]

text \<open>The loop over the opportunities that are sent to Telegram.\<close>

fun sendAlerts :: "scanEnv \<Rightarrow> telegramBot \<Rightarrow> opportunity list \<Rightarrow> telegramBot" where
  "sendAlerts env gate [] = gate"
| "sendAlerts env gate (opp # opps) =
     sendAlerts env
       (snd (sendArbitrageAlert gate (envNow env) (envNow env)
               (fst (envDelivered env (marketId opp))) (snd (envDelivered env (marketId opp)))
               opp))
       opps"

text \<open>
  The comparator \<open>(a, b) => b.netProfitPercent - a.netProfitPercent\<close> is positive
  when \<open>a\<close> belongs after \<open>b\<close>.
\<close>

definition byNetProfit :: "opportunity \<Rightarrow> opportunity \<Rightarrow> bool" where
  "byNetProfit a b = js_gt (js_sub (netProfitPercent b) (netProfitPercent a)) (Number 0)"

text \<open>
  The \<open>try\<close> block of \<open>PolyClaudeService.runScan\<close>, the \<open>catch\<close> included: when the
  catalog cannot be fetched the exception is caught before any state is changed and the
  result is the empty list.
\<close>

definition runScan_try :: "scanEnv \<Rightarrow> service \<Rightarrow> opportunity list \<times> service" where
  "runScan_try env s =
     (case envMarkets env of
        None \<Rightarrow> ([], s)
      | Some markets \<Rightarrow>
          if markets = [] then ([], s)
          else
            let activeMarkets = filter (\<lambda>m. active m \<and> \<not> closed_m m) markets;
                opportunities =
                  batchedScan 10 (scanMarket (svc_config s) (envNow env) (envOrderBook env))
                    activeMarkets;
                opportunities = sortBy byNetProfit opportunities;
                st = (stats s)
                  \<lparr>totalScans := totalScans (stats s) + 1,
                   marketsScanned := length activeMarkets,
                   lastScanAt := Some (envNow env),
                   totalOpportunitiesFound :=
                     totalOpportunitiesFound (stats s) + length opportunities,
                   activeOpportunities := length opportunities\<rparr>;
                tsv = map_option
                  (\<lambda>t. TerminalServer_addAlerts (envNow env) (updateStats (envNow env) t st)
                         opportunities)
                  (terminalServer s);
                tg = (case telegram s of
                        None \<Rightarrow> None
                      | Some gate \<Rightarrow>
                          if length opportunities > 0
                          then Some (sendAlerts env gate
                                 (take 3 (filter (\<lambda>opp. js_ge (netProfitPercent opp) (Number 1))
                                            opportunities)))
                          else Some gate)
            in (opportunities, s\<lparr>stats := st, terminalServer := tsv, telegram := tg\<rparr>))"

text \<open>The state in which a cycle runs: both scanning flags are set.\<close>

definition runScan_enter :: "service \<Rightarrow> service" where
  "runScan_enter s =
     s\<lparr>isScanning := True, terminalServer := map_option (setScanning True) (terminalServer s)\<rparr>"

text \<open>The \<open>finally\<close> block.\<close>

definition runScan_finally :: "service \<Rightarrow> service" where
  "runScan_finally s =
     s\<lparr>isScanning := False, terminalServer := map_option (setScanning False) (terminalServer s)\<rparr>"

text \<open>\<open>PolyClaudeService.runScan\<close>: the result and the state after the cycle.\<close>

definition runScan :: "scanEnv \<Rightarrow> service \<Rightarrow> opportunity list \<times> service" where
  "runScan env s =
     (if isScanning s then ([], s)
      else
        let r = runScan_try env (runScan_enter s)
        in (fst r, runScan_finally (snd r)))"

section \<open>The standalone server: near-miss and live-market tracking\<close>

datatype pricedDirection = UNDERPRICED | OVERPRICED

text \<open>
  The entries of the module-level arrays \<open>nearMisses\<close> and \<open>liveMarkets\<close>; the
  random \<open>id\<close> and the display fields (question, category, volume, the percent strings)
  are left out.
\<close>

record nearMiss =
  nm_slug :: string
  nm_yesAsk :: number
  nm_noAsk :: number
  nm_yesBid :: number
  nm_noBid :: number
  nm_combinedAsk :: number
  nm_combinedBid :: number
  nm_deviation :: number
  nm_direction :: pricedDirection
  nm_timestamp :: real

record liveMarket =
  lm_slug :: string
  lm_yesPrice :: number
  lm_noPrice :: number
  lm_yesBid :: number
  lm_yesAsk :: number
  lm_noBid :: number
  lm_noAsk :: number
  lm_spread :: number
  lm_liquidity :: number
  lm_timestamp :: real

record tracking =
  nearMisses :: "nearMiss list"
  liveMarkets :: "liveMarket list"

definition MAX_NEAR_MISSES :: nat where
  "MAX_NEAR_MISSES = 20"

definition MAX_LIVE_MARKETS :: nat where
  "MAX_LIVE_MARKETS = 15"

text \<open>\<open>Array.prototype.findIndex\<close>; \<open>None\<close> stands for -1.\<close>

fun findIndex :: "('a \<Rightarrow> bool) \<Rightarrow> 'a list \<Rightarrow> nat option" where
  "findIndex P [] = None"
| "findIndex P (x # xs) = (if P x then Some 0 else map_option Suc (findIndex P xs))"

text \<open>\<open>xs.splice(i, 1)\<close> and \<open>xs.splice(i, 0, x)\<close>.\<close>

definition spliceOut :: "nat \<Rightarrow> 'a list \<Rightarrow> 'a list" where
  "spliceOut i xs = take i xs @ drop (Suc i) xs"

definition spliceIn :: "nat \<Rightarrow> 'a \<Rightarrow> 'a list \<Rightarrow> 'a list" where
  "spliceIn i x xs = take i xs @ x # drop i xs"

text \<open>\<open>while (xs.length > n) xs.pop()\<close>\<close>

function popOver :: "nat \<Rightarrow> 'a list \<Rightarrow> 'a list" where
  "popOver n xs = (if length xs > n then popOver n (butlast xs) else xs)"
  by pat_completeness auto
termination
  by (relation "measure (\<lambda>(n, xs). length xs)") auto

declare popOver.simps [simp del]

definition addNearMiss ::
  "real \<Rightarrow> nearMiss list \<Rightarrow> clobMarket \<Rightarrow> number \<Rightarrow> number \<Rightarrow> number \<Rightarrow> number
     \<Rightarrow> number \<Rightarrow> number \<Rightarrow> nearMiss list" where
  "addNearMiss now nms m yesAsk noAsk yesBid noBid cAsk cBid =
     (let deviation = js_abs (js_sub (Number 1) cAsk);
          nearMiss = \<lparr>nm_slug = market_slug m, nm_yesAsk = yesAsk, nm_noAsk = noAsk,
                      nm_yesBid = yesBid, nm_noBid = noBid, nm_combinedAsk = cAsk,
                      nm_combinedBid = cBid, nm_deviation = deviation,
                      nm_direction = (if js_lt cAsk (Number 1) then UNDERPRICED else OVERPRICED),
                      nm_timestamp = now\<rparr>;
          nms = (case findIndex (\<lambda>n. nm_slug n = market_slug m) nms of
                   None \<Rightarrow> nms | Some existingIdx \<Rightarrow> spliceOut existingIdx nms);
          nms = (case findIndex (\<lambda>n. js_gt (nm_deviation n) deviation) nms of
                   None \<Rightarrow> nms @ [nearMiss] | Some insertIdx \<Rightarrow> spliceIn insertIdx nearMiss nms)
      in popOver MAX_NEAR_MISSES nms)"

definition addLiveMarket ::
  "real \<Rightarrow> liveMarket list \<Rightarrow> clobMarket \<Rightarrow> number \<Rightarrow> number \<Rightarrow> number \<Rightarrow> number
     \<Rightarrow> number \<Rightarrow> number \<Rightarrow> liveMarket list" where
  "addLiveMarket now lms m yesAsk noAsk yesBid noBid yesLiquidity noLiquidity =
     (let totalLiquidity = js_add yesLiquidity noLiquidity;
          liveMarket = \<lparr>lm_slug = market_slug m,
                        lm_yesPrice = js_div (js_add yesBid yesAsk) (Number 2),
                        lm_noPrice = js_div (js_add noBid noAsk) (Number 2),
                        lm_yesBid = yesBid, lm_yesAsk = yesAsk, lm_noBid = noBid,
                        lm_noAsk = noAsk,
                        lm_spread = avgSpreadOf yesAsk yesBid noAsk noBid,
                        lm_liquidity = totalLiquidity, lm_timestamp = now\<rparr>;
          lms = (case findIndex (\<lambda>l. lm_slug l = market_slug m) lms of
                   None \<Rightarrow> lms | Some existingIdx \<Rightarrow> spliceOut existingIdx lms);
          lms = (case findIndex (\<lambda>l. js_lt (lm_liquidity l) totalLiquidity) lms of
                   None \<Rightarrow> lms @ [liveMarket] | Some insertIdx \<Rightarrow> spliceIn insertIdx liveMarket lms)
      in popOver MAX_LIVE_MARKETS lms)"

section \<open>The standalone server: scanning one market\<close>

text \<open>
  \<open>scanMarketForArbitrage\<close> of the standalone server: the tracking arrays are passed
  in and returned. After the guards it records the market as a live market, records a
  near miss when the deviation is in (0, 0.05], and then decides on the opportunity.
\<close>

definition scanMarketForArbitrage ::
  "config \<Rightarrow> real \<Rightarrow> (string \<Rightarrow> book option) \<Rightarrow> clobMarket \<Rightarrow> tracking
     \<Rightarrow> opportunity option \<times> tracking" where
  "scanMarketForArbitrage cfg now fetchOrderBook m tr =
     (case tokens m of
        Some (yesId # noId # _) \<Rightarrow>
          (case fetchOrderBook yesId of None \<Rightarrow> (None, tr) | Some yesBook \<Rightarrow>
           (case fetchOrderBook noId of None \<Rightarrow> (None, tr) | Some noBook \<Rightarrow>
            (case bestPrices yesBook noBook of None \<Rightarrow> (None, tr)
             | Some (yesBestAsk, yesBestBid, noBestAsk, noBestBid) \<Rightarrow>
                 let cAsk = js_add yesBestAsk noBestAsk;
                     cBid = js_add yesBestBid noBestBid;
                     yesLiquidity = liquidityOf (asks yesBook);
                     noLiquidity = liquidityOf (asks noBook);
                     tr = tr\<lparr>liveMarkets :=
                            addLiveMarket now (liveMarkets tr) m yesBestAsk noBestAsk
                              yesBestBid noBestBid yesLiquidity noLiquidity\<rparr>;
                     deviation = js_abs (js_sub (Number 1) cAsk);
                     tr = (if js_gt deviation (Number 0) \<and> js_le deviation (rd 0.05)
                           then tr\<lparr>nearMisses :=
                                  addNearMiss now (nearMisses tr) m yesBestAsk noBestAsk
                                    yesBestBid noBestBid cAsk cBid\<rparr>
                           else tr)
                 in (buildOpportunity cfg now m yesId noId yesLiquidity noLiquidity
                       yesBestAsk yesBestBid noBestAsk noBestBid, tr))))
      | _ \<Rightarrow> (None, tr))"

section \<open>The standalone server: alerts and the scan cycle\<close>

record serverStats =
  ss_marketsScanned :: nat
  ss_totalFound :: nat
  ss_activeOpps :: nat
  ss_bestProfit :: number
  ss_totalScans :: nat

record server =
  srv_alerts :: "opportunity list"
  srv_stats :: serverStats
  srv_isScanning :: bool
  srv_config :: config
  srv_tracking :: tracking

text \<open>\<open>alerts.length > 0 ? Math.max(...alerts.map(a => a.netProfitPercent)) : 0\<close>\<close>

definition bestProfitOf :: "opportunity list \<Rightarrow> number" where
  "bestProfitOf as =
     (case map netProfitPercent as of [] \<Rightarrow> Number 0 | x # xs \<Rightarrow> fold js_max xs x)"

text \<open>
  \<open>PolyClaudeServer.addAlert\<close>: \<open>find\<close> followed by \<open>indexOf\<close> gives the index of the
  first alert with the same condition id.
\<close>

definition PolyClaudeServer_addAlert :: "server \<Rightarrow> opportunity \<Rightarrow> server" where
  "PolyClaudeServer_addAlert srv opp =
     (let r = (case findIndex (\<lambda>a. marketId a = marketId opp) (srv_alerts srv) of
                 Some idx \<Rightarrow> ((srv_alerts srv)[idx := opp], srv_stats srv)
               | None \<Rightarrow> (opp # srv_alerts srv,
                           (srv_stats srv)\<lparr>ss_totalFound := ss_totalFound (srv_stats srv) + 1\<rparr>));
          as = (if length (fst r) > 100 then take 100 (fst r) else fst r)
      in srv\<lparr>srv_alerts := as,
             srv_stats := (snd r)\<lparr>ss_activeOpps := length as, ss_bestProfit := bestProfitOf as\<rparr>\<rparr>)"

text \<open>
  \<open>fetchMarkets\<close> of the standalone server: a failed fetch is caught and gives the
  empty list.
\<close>

definition fetchMarkets :: "scanEnv \<Rightarrow> clobMarket list" where
  "fetchMarkets env =
     (case envMarkets env of
        None \<Rightarrow> []
      | Some markets \<Rightarrow> filter (\<lambda>m. active m \<and> \<not> closed_m m \<and> enable_order_book m) markets)"

text \<open>
  One batch: \<open>Promise.all(batch.map(m => scanMarketForArbitrage(m, config)))\<close>. The
  markets of a batch update the tracking arrays one after the other; the model takes
  them in batch order.
\<close>

fun scanBatch ::
  "config \<Rightarrow> real \<Rightarrow> (string \<Rightarrow> book option) \<Rightarrow> clobMarket list \<Rightarrow> tracking
     \<Rightarrow> opportunity option list \<times> tracking" where
  "scanBatch cfg now fetchOrderBook [] tr = ([], tr)"
| "scanBatch cfg now fetchOrderBook (m # ms) tr =
     (let r = scanMarketForArbitrage cfg now fetchOrderBook m tr;
          rs = scanBatch cfg now fetchOrderBook ms (snd r)
      in (fst r # fst rs, snd rs))"

text \<open>\<open>for (const opp of results) if (opp) this.addAlert(opp)\<close>\<close>

fun addFound :: "server \<Rightarrow> opportunity option list \<Rightarrow> server" where
  "addFound srv [] = srv"
| "addFound srv (None # rs) = addFound srv rs"
| "addFound srv (Some opp # rs) = addFound (PolyClaudeServer_addAlert srv opp) rs"

text \<open>The batch loop of \<open>PolyClaudeServer.runScan\<close>, in batches of 5.\<close>

function scanBatches :: "scanEnv \<Rightarrow> server \<Rightarrow> clobMarket list \<Rightarrow> server" where
  "scanBatches env srv ms =
     (if ms = [] then srv
      else
        let r = scanBatch (srv_config srv) (envNow env) (envOrderBook env) (take 5 ms)
                  (srv_tracking srv)
        in scanBatches env (addFound (srv\<lparr>srv_tracking := snd r\<rparr>) (fst r)) (drop 5 ms))"
  by pat_completeness auto
termination
  by (relation "measure (\<lambda>(env, srv, ms). length ms)") auto

declare scanBatches.simps [simp del]

text \<open>
  \<open>PolyClaudeServer.runScan\<close>: at most the first 100 markets are scanned. The log
  lines are not modelled. \<open>server_runScan_enter\<close> is the state in which the cycle
  runs: the flag is set and the scan is counted.
\<close>

definition server_runScan_enter :: "server \<Rightarrow> server" where
  "server_runScan_enter srv =
     srv\<lparr>srv_isScanning := True,
         srv_stats := (srv_stats srv)\<lparr>ss_totalScans := ss_totalScans (srv_stats srv) + 1\<rparr>\<rparr>"

definition server_runScan :: "scanEnv \<Rightarrow> server \<Rightarrow> server" where
  "server_runScan env srv =
     (if srv_isScanning srv then srv
      else
        let srv = server_runScan_enter srv;
            markets = fetchMarkets env
        in if markets = [] then srv\<lparr>srv_isScanning := False\<rparr>
           else
             let srv = srv\<lparr>srv_stats := (srv_stats srv)
                             \<lparr>ss_marketsScanned := length markets\<rparr>\<rparr>;
                 srv = scanBatches env srv (take 100 markets)
             in srv\<lparr>srv_isScanning := False\<rparr>)"

section \<open>The serverless scan endpoint\<close>

record arbitrageInfo =
  arbType :: direction
  profitPercent :: number
  profitAbsolute :: number

record analysis =
  an_slug :: string
  an_yesBid :: number
  an_yesAsk :: number
  an_noBid :: number
  an_noAsk :: number
  an_combinedAsk :: number
  an_combinedBid :: number
  an_spread :: number
  an_liquidity :: number
  an_deviation :: number
  an_direction :: pricedDirection
  isNearMiss :: bool
  arbitrage :: "arbitrageInfo option"

text \<open>\<open>analyzeMarket\<close> of the endpoint: \<open>None\<close> is \<open>null\<close>.\<close>

definition analyzeMarket :: "(string \<Rightarrow> book option) \<Rightarrow> clobMarket \<Rightarrow> analysis option" where
  "analyzeMarket fetchOrderBook m =
     (case tokens m of
        Some (yesId # noId # _) \<Rightarrow>
          (case fetchOrderBook yesId of None \<Rightarrow> None | Some yesBook \<Rightarrow>
           (case fetchOrderBook noId of None \<Rightarrow> None | Some noBook \<Rightarrow>
            (case bestPrices yesBook noBook of None \<Rightarrow> None
             | Some (yesBestAsk, yesBestBid, noBestAsk, noBestBid) \<Rightarrow>
                 let cAsk = js_add yesBestAsk noBestAsk;
                     cBid = js_add yesBestBid noBestBid;
                     totalLiquidity =
                       js_add (liquidityOf (asks yesBook)) (liquidityOf (asks noBook));
                     spread = avgSpreadOf yesBestAsk yesBestBid noBestAsk noBestBid;
                     buyBoth = js_sub (Number 1) cAsk;
                     sellBoth = js_sub cBid (Number 1);
                     arb = (if js_gt buyBoth (rd 0.001)
                            then Some \<lparr>arbType = BUY_BOTH,
                                       profitPercent = js_mul (js_div buyBoth cAsk) (Number 100),
                                       profitAbsolute = buyBoth\<rparr>
                            else if js_gt sellBoth (rd 0.001)
                            then Some \<lparr>arbType = SELL_BOTH,
                                       profitPercent =
                                         js_mul (js_div sellBoth (Number 1)) (Number 100),
                                       profitAbsolute = sellBoth\<rparr>
                            else None);
                     deviation = js_abs (js_sub (Number 1) cAsk)
                 in Some \<lparr>an_slug = market_slug m,
                          an_yesBid = yesBestBid, an_yesAsk = yesBestAsk,
                          an_noBid = noBestBid, an_noAsk = noBestAsk,
                          an_combinedAsk = cAsk, an_combinedBid = cBid,
                          an_spread = spread, an_liquidity = totalLiquidity,
                          an_deviation = deviation,
                          an_direction = (if js_lt cAsk (Number 1) then UNDERPRICED
                                          else OVERPRICED),
                          isNearMiss = (js_gt deviation (Number 0) \<and> js_le deviation (rd 0.05)
                                        \<and> arb = None),
                          arbitrage = arb\<rparr>)))
      | _ \<Rightarrow> None)"

record scanResponse =
  resp_opportunities :: "analysis list"
  resp_nearMisses :: "analysis list"
  resp_liveMarkets :: "analysis list"
  resp_marketsScanned :: nat

text \<open>
  The three comparators of the handler: \<open>b.liquidity - a.liquidity\<close>,
  \<open>a.deviation - b.deviation\<close> and
  \<open>(b.arbitrage?.profitPercent || 0) - (a.arbitrage?.profitPercent || 0)\<close>.
\<close>

definition byLiquidity :: "analysis \<Rightarrow> analysis \<Rightarrow> bool" where
  "byLiquidity a b = js_gt (js_sub (an_liquidity b) (an_liquidity a)) (Number 0)"

definition byDeviation :: "analysis \<Rightarrow> analysis \<Rightarrow> bool" where
  "byDeviation a b = js_gt (js_sub (an_deviation a) (an_deviation b)) (Number 0)"

definition profitOrZero :: "analysis \<Rightarrow> number" where
  "profitOrZero a =
     (case arbitrage a of None \<Rightarrow> Number 0
      | Some i \<Rightarrow> if truthyNum (profitPercent i) then profitPercent i else Number 0)"

definition byProfit :: "analysis \<Rightarrow> analysis \<Rightarrow> bool" where
  "byProfit a b = js_gt (js_sub (profitOrZero b) (profitOrZero a)) (Number 0)"

text \<open>
  The request handler: \<open>Inl\<close> is the 500 response for a failed catalog fetch. At most
  50 markets are analysed, in batches of 10. \<open>results.sort\<close> sorts the array in
  place by liquidity, so the two later filters read the sorted array.
\<close>

definition handler :: "scanEnv \<Rightarrow> exn + scanResponse" where
  "handler env =
     (case envMarkets env of
        None \<Rightarrow> Inl HttpError
      | Some ms \<Rightarrow>
          let markets = filter (\<lambda>m. active m \<and> \<not> closed_m m \<and> enable_order_book m) ms;
              results = batchedScan 10 (analyzeMarket (envOrderBook env)) (take 50 markets);
              results = sortBy byLiquidity results
          in Inr \<lparr>resp_opportunities =
                    take 10 (sortBy byProfit (filter (\<lambda>a. arbitrage a \<noteq> None) results)),
                  resp_nearMisses =
                    take 20 (sortBy byDeviation (filter isNearMiss results)),
                  resp_liveMarkets = take 15 results,
                  resp_marketsScanned = length results\<rparr>)"

section \<open>The thresholds of the opportunity builder, named\<close>

text \<open>
  The liquidity and risk conditions under which \<open>buildOpportunity\<close> returns \<open>null\<close>,
  as predicates of its inputs.
\<close>

definition liquidityRejected :: "config \<Rightarrow> number \<Rightarrow> number \<Rightarrow> bool" where
  "liquidityRejected cfg yesLiquidity noLiquidity =
     (case minLiquidity cfg of None \<Rightarrow> False
      | Some c \<Rightarrow> truthyNum c \<and> js_lt (js_min yesLiquidity noLiquidity) c)"

definition riskRejected ::
  "config \<Rightarrow> real \<Rightarrow> clobMarket \<Rightarrow> number \<Rightarrow> number \<Rightarrow> number \<Rightarrow> number \<Rightarrow> number
     \<Rightarrow> number \<Rightarrow> bool" where
  "riskRejected cfg now m yesLiquidity noLiquidity ya yb na nb =
     js_gt (Number (of_int (score (calculateRiskScore
         (pGrossProfitPercent (pricingAnalyzer ya yb na nb))
         (js_min yesLiquidity noLiquidity)
         (avgSpreadOf ya yb na nb)
         (daysToExpiryOf (end_date_iso m) now))))) (maxRiskScore cfg)"

section \<open>Incomplete and zero-priced snapshots, named\<close>

text \<open>
  A snapshot is incomplete when the fetch failed or the first ask or the first bid has
  no price; it is zero-priced when one of these prices parses to 0.
\<close>

definition incomplete :: "book option \<Rightarrow> bool" where
  "incomplete b =
     (case b of None \<Rightarrow> True
      | Some bk \<Rightarrow> bestPrice (asks bk) = None \<or> bestPrice (bids bk) = None)"

definition zeroPriced :: "book \<Rightarrow> bool" where
  "zeroPriced bk =
     (bestPrice (asks bk) = Some (Number 0) \<or> bestPrice (bids bk) = Some (Number 0))"

section \<open>The order of the near-miss list, named\<close>

text \<open>The real value of a finite number, to state that a list is sorted.\<close>

fun numval :: "number \<Rightarrow> real" where
  "numval (Number x) = x"
| "numval _ = 0"

section \<open>Concrete inputs\<close>

text \<open>
  A market with the tokens \<open>yes\<close> and \<open>no\<close> that ends 100 days after time 0, books
  with one level of size 1000 on each side, and the collaborator that serves them. A
  price string such as \<open>"0.42"\<close> is the number \<open>rd 0.42\<close>.
\<close>

definition exLevel :: "number \<Rightarrow> level" where
  "exLevel p = \<lparr>price = Some p, size_l = Some (Number 1000)\<rparr>"

definition exBook :: "number \<Rightarrow> number \<Rightarrow> book" where
  "exBook ask bid = \<lparr>asks = Some [exLevel ask], bids = Some [exLevel bid]\<rparr>"

definition exMarket :: clobMarket where
  "exMarket =
     \<lparr>condition_id = ''0xc1'', market_slug = ''rain-tomorrow'', question = ''Rain tomorrow?'',
      end_date_iso = Number 8640000000, tokens = Some [''yes'', ''no''],
      active = True, closed_m = False, enable_order_book = True\<rparr>"

definition exBooks :: "book option \<Rightarrow> book option \<Rightarrow> string \<Rightarrow> book option" where
  "exBooks yesBook noBook t =
     (if t = ''yes'' then yesBook else if t = ''no'' then noBook else None)"

definition exEnv :: "clobMarket list \<Rightarrow> (string \<Rightarrow> book option) \<Rightarrow> scanEnv" where
  "exEnv ms g =
     \<lparr>envMarkets = Some ms, envOrderBook = g, envNow = 0, envDelivered = (\<lambda>_. (True, True))\<rparr>"

definition exStats :: scannerStats where
  "exStats =
     \<lparr>totalScans = 0, totalOpportunitiesFound = 0, activeOpportunities = 0,
      totalProfitCaptured = 0, lastScanAt = None, uptime = 0, marketsScanned = 0\<rparr>"

definition exGate :: telegramBot where
  "exGate = \<lparr>configured = True, lastAlertTime = [''0xc1'' \<mapsto> 1000], cooldownMs = 60000\<rparr>"

text \<open>A sample opportunity record for the example market, for the alert gate.\<close>

definition exOpp :: opportunity where
  "exOpp =
     \<lparr>marketId = ''0xc1'', status = ''active'',
      intraMarket =
        \<lparr>yesToken = \<lparr>tokenId = ''yes'', bestBid = rd 0.40, bestAsk = rd 0.42,
                     midpoint = rd 0.41\<rparr>,
         noToken = \<lparr>tokenId = ''no'', bestBid = rd 0.53, bestAsk = rd 0.55,
                    midpoint = rd 0.54\<rparr>,
         combinedAsk = rd 0.97, combinedBid = rd 0.93, buyBothProfit = rd 0.03,
         sellBothProfit = rd (- 0.07), arbDirection = BUY_BOTH\<rparr>,
      grossProfitPercent = rd 3.09278350515467, grossProfitAbsolute = rd 0.03,
      estimatedFees = rd 0.01, estimatedGas = rd 0.002,
      netProfitPercent = rd 1.89278350515467, netProfitAbsolute = rd 0.018,
      breakeven = rd 0.012, oppRiskLevel = LOW, riskScore = 3,
      riskFactors = [], confidenceScore = rd 0.95,
      recommendedSize = Number 100, maxSize = Number 500, discoveredAt = 0\<rparr>"

definition exService :: service where
  "exService =
     \<lparr>svc_config = DEFAULT_CONFIG, telegram = None,
      terminalServer = Some \<lparr>alerts = [], ts_stats = exStats, ts_isScanning = False,
                              lastUpdate = 0\<rparr>,
      isScanning = False, stats = exStats\<rparr>"

definition exServer :: server where
  "exServer =
     \<lparr>srv_alerts = [],
      srv_stats = \<lparr>ss_marketsScanned = 0, ss_totalFound = 0, ss_activeOpps = 0,
                    ss_bestProfit = Number 0, ss_totalScans = 0\<rparr>,
      srv_isScanning = False,
      srv_config = \<lparr>minProfitPercent = rd 0.1, maxRiskScore = Number 8,
                     scanIntervalMs = Number 30000, minLiquidity = Some (Number 10)\<rparr>,
      srv_tracking = \<lparr>nearMisses = [], liveMarkets = []\<rparr>\<rparr>"

section \<open>Rounding to a double\<close>

text \<open>
  \<open>rd x\<close> is the multiple \<open>m / 2 ^ k\<close> of the unit in the last place that is nearest
  to \<open>x\<close>, the even one at a tie; \<open>k\<close> is fixed by the binade of \<open>x\<close>. The two
  rules below evaluate \<open>rd\<close> at a rational.
\<close>

lemma rne_nearest:
  assumes "\<bar>y - of_int m\<bar> < 1 / 2"
  shows "rne y = m"
proof -
  have b1: "y - of_int m < 1 / 2" and b2: "- (y - of_int m) < 1 / 2"
    using assms unfolding abs_less_iff by blast+
  show ?thesis
  proof (cases "of_int m \<le> y")
    case True
    have "y < of_int m + 1" using b1 by linarith
    with True have f: "\<lfloor>y\<rfloor> = m" by (rule floor_unique)
    show ?thesis using b1 by (simp add: rne_def Let_def f)
  next
    case False
    have "of_int (m - 1) \<le> y" using b2 by simp
    moreover have "y < of_int (m - 1) + 1" using False by simp
    ultimately have f: "\<lfloor>y\<rfloor> = m - 1" by (rule floor_unique)
    have "y - of_int (m - 1) > 1 / 2" using b2 by simp
    then show ?thesis by (simp add: rne_def Let_def f)
  qed
qed

lemma rne_tie:
  assumes "y - of_int f = 1 / 2"
  shows "rne y = (if even f then f else f + 1)"
proof -
  have "of_int f \<le> y" and "y < of_int f + 1"
    using assms by linarith+
  then have fl: "\<lfloor>y\<rfloor> = f" by (rule floor_unique)
  show ?thesis using assms by (simp add: rne_def Let_def fl)
qed

lemma ulpExp_binade:
  fixes k :: nat
  assumes lo: "2 ^ 52 \<le> \<bar>x\<bar> * 2 ^ k" and hi: "\<bar>x\<bar> * 2 ^ k < 2 ^ 53" and k: "k \<le> 1074"
  shows "ulpExp x = - int k" and "x \<noteq> 0"
proof -
  show nz: "x \<noteq> 0" using lo by auto
  have pos: "\<bar>x\<bar> > 0" using nz by simp
  have rk: "(2::real) powr real k = 2 ^ k"
    by (rule powr_realpow) simp
  have "real_of_int (52 - int k) = 52 - real k" by simp
  then have "2 powr of_int (52 - int k) = (2::real) powr 52 / 2 powr real k"
    by (simp only: powr_diff)
  then have p: "2 powr of_int (52 - int k) = (2::real) ^ 52 / 2 ^ k"
    by (simp only: rk) simp
  have "real_of_int (52 - int k) + 1 = 53 - real k" by simp
  then have "2 powr (of_int (52 - int k) + 1) = (2::real) powr 53 / 2 powr real k"
    by (simp only: powr_diff)
  then have q: "2 powr (of_int (52 - int k) + 1) = (2::real) ^ 53 / 2 ^ k"
    by (simp only: rk) simp
  have "\<lfloor>log 2 \<bar>x\<bar>\<rfloor> = 52 - int k"
    unfolding floor_log_eq_powr_iff [OF pos, of 2, simplified] p q
    using lo hi by (simp add: field_simps)
  then show "ulpExp x = - int k"
    using k by (simp add: ulpExp_def)
qed

lemma rnd_at_binade:
  fixes k :: nat
  assumes lo: "2 ^ 52 \<le> \<bar>x\<bar> * 2 ^ k" and hi: "\<bar>x\<bar> * 2 ^ k < 2 ^ 53" and k: "k \<le> 1074"
  shows "rnd x = of_int (rne (x * 2 ^ k)) / 2 ^ k"
proof -
  have u: "ulpExp x = - int k" and nz: "x \<noteq> 0"
    using ulpExp_binade [OF lo hi k] by simp_all
  have "(2::real) powr real k = 2 ^ k"
    by (rule powr_realpow) simp
  then have p: "2 powr real_of_int (- int k) = 1 / (2::real) ^ k"
    by (simp add: powr_minus inverse_eq_divide)
  have m: "x / (1 / 2 ^ k) = x * 2 ^ k" by simp
  have "rnd x = of_int (rne (x / 2 powr of_int (ulpExp x))) * 2 powr of_int (ulpExp x)"
    using nz by (simp only: rnd_def if_False)
  also have "\<dots> = of_int (rne (x * 2 ^ k)) * (1 / 2 ^ k)"
    by (simp only: u p m)
  finally show ?thesis by simp
qed

lemma rd_finiteI:
  fixes k :: nat
  assumes hi: "\<bar>x\<bar> * 2 ^ k < 2 ^ 53" and r: "rnd x = of_int m / 2 ^ k"
    and near: "\<bar>x * 2 ^ k - of_int m\<bar> \<le> 1 / 2"
  shows "rd x = Number (of_int m / 2 ^ k)"
proof -
  have xk: "\<bar>x * 2 ^ k\<bar> < 2 ^ 53"
    using hi by (simp add: abs_mult)
  have "\<bar>real_of_int m\<bar> \<le> \<bar>x * 2 ^ k\<bar> + \<bar>x * 2 ^ k - of_int m\<bar>"
    by (rule abs_triangle_ineq4 [of "x * 2 ^ k" "x * 2 ^ k - of_int m", simplified])
  then have m: "\<bar>real_of_int m\<bar> < 2 ^ 53 + 1"
    using xk near by linarith
  have "1 \<le> (2::real) ^ k" by simp
  then have "\<bar>real_of_int m\<bar> * 1 \<le> \<bar>real_of_int m\<bar> * 2 ^ k"
    by (intro mult_left_mono) simp_all
  then have "\<bar>real_of_int m / 2 ^ k\<bar> \<le> \<bar>real_of_int m\<bar>"
    by (simp add: abs_divide field_simps)
  moreover have "(2::real) ^ 53 + 1 < 2 ^ 1024"
  proof -
    have "(2::real) ^ 53 + 1 \<le> 2 ^ 54" by simp
    also have "\<dots> < 2 ^ 1024" by (rule power_strict_increasing) simp_all
    finally show ?thesis .
  qed
  ultimately have "\<bar>rnd x\<bar> < 2 ^ 1024" using r m by linarith
  then have "\<not> rnd x \<ge> 2 ^ 1024" and "\<not> rnd x \<le> - (2 ^ 1024)"
    by linarith+
  then have "rd x = Number (rnd x)"
    by (simp only: rd_def if_False)
  then show ?thesis
    by (simp only: r)
qed

lemma rd_eqI:
  fixes k :: nat
  assumes lo: "2 ^ 52 \<le> \<bar>x\<bar> * 2 ^ k" and hi: "\<bar>x\<bar> * 2 ^ k < 2 ^ 53" and k: "k \<le> 1074"
    and near: "\<bar>x * 2 ^ k - of_int m\<bar> < 1 / 2"
  shows "rd x = Number (of_int m / 2 ^ k)"
proof -
  have "rnd x = of_int m / 2 ^ k"
    using rnd_at_binade [OF lo hi k] rne_nearest [OF near] by simp
  then show ?thesis
    using near by (intro rd_finiteI [OF hi]) simp_all
qed

lemma rd_tieI:
  fixes k :: nat
  assumes lo: "2 ^ 52 \<le> \<bar>x\<bar> * 2 ^ k" and hi: "\<bar>x\<bar> * 2 ^ k < 2 ^ 53" and k: "k \<le> 1074"
    and tie: "x * 2 ^ k - of_int f = 1 / 2"
  shows "rd x = Number (of_int (if even f then f else f + 1) / 2 ^ k)"
proof -
  have r: "rnd x = of_int (if even f then f else f + 1) / 2 ^ k"
    using rnd_at_binade [OF lo hi k] rne_tie [OF tie] by simp
  have "\<bar>x * 2 ^ k - of_int (if even f then f else f + 1)\<bar> \<le> 1 / 2"
    using tie by (cases "even f") (simp_all add: abs_if)
  then show ?thesis
    by (rule rd_finiteI [OF hi r])
qed

lemma rd_0: "rd 0 = Number 0"
proof -
  have "(0::real) < 2 ^ 1024" by simp
  then show ?thesis by (simp add: rd_def rnd_def)
qed









section \<open>The doubles of the examples\<close>

text \<open>
  The roundings that occur when the scanner runs on the example prices, each checked
  by one of the two rules above.
\<close>

lemma rd_val_1 [rd_vals]:
  "rd (1 / 20) = Number (3602879701896397 / 72057594037927936)"
  by (rule rd_eqI [where m = "7205759403792794" and k = 57, simplified]) simp_all

lemma rd_val_2 [rd_vals]:
  "rd (1 / 50) = Number (5764607523034235 / 288230376151711744)"
  by (rule rd_eqI [where m = "5764607523034235" and k = 58, simplified]) simp_all

lemma rd_val_3 [rd_vals]:
  "rd (1 / 1000) = Number (1152921504606847 / 1152921504606846976)"
  by (rule rd_eqI [where m = "4611686018427388" and k = 62, simplified]) simp_all

lemma rd_val_4 [rd_vals]:
  "rd (1 / 10) = Number (3602879701896397 / 36028797018963968)"
  by (rule rd_eqI [where m = "7205759403792794" and k = 56, simplified]) simp_all

lemma rd_val_5 [rd_vals]:
  "rd (1 / 100) = Number (5764607523034235 / 576460752303423488)"
  by (rule rd_eqI [where m = "5764607523034235" and k = 59, simplified]) simp_all

lemma rd_val_6 [rd_vals]:
  "rd (1 / 500) = Number (1152921504606847 / 576460752303423488)"
  by (rule rd_eqI [where m = "4611686018427388" and k = 61, simplified]) simp_all

lemma rd_val_7 [rd_vals]:
  "rd (2 / 5) = Number (3602879701896397 / 9007199254740992)"
  by (rule rd_eqI [where m = "7205759403792794" and k = 54, simplified]) simp_all

lemma rd_val_8 [rd_vals]:
  "rd (19 / 50) = Number (3422735716801577 / 9007199254740992)"
  by (rule rd_eqI [where m = "6845471433603154" and k = 54, simplified]) simp_all

lemma rd_val_9 [rd_vals]:
  "rd (11 / 20) = Number (2476979795053773 / 4503599627370496)"
  by (rule rd_eqI [where m = "4953959590107546" and k = 53, simplified]) simp_all

lemma rd_val_10 [rd_vals]:
  "rd (53 / 100) = Number (2386907802506363 / 4503599627370496)"
  by (rule rd_eqI [where m = "4773815605012726" and k = 53, simplified]) simp_all

lemma rd_val_11 [rd_vals]:
  "rd (8556839292003943 / 9007199254740992) = Number (8556839292003943 / 9007199254740992)"
  by (rule rd_eqI [where m = "8556839292003943" and k = 53, simplified]) simp_all

lemma rd_val_12 [rd_vals]:
  "rd (8196551321814303 / 9007199254740992) = Number (8196551321814303 / 9007199254740992)"
  by (rule rd_eqI [where m = "8196551321814303" and k = 53, simplified]) simp_all

lemma rd_val_13 [rd_vals]:
  "rd (450359962737049 / 9007199254740992) = Number (450359962737049 / 9007199254740992)"
  by (rule rd_eqI [where m = "7205759403792784" and k = 57, simplified]) simp_all

lemma rd_val_14 [rd_vals]:
  "rd (- (810647932926689 / 9007199254740992)) = Number (- (810647932926689 / 9007199254740992))"
  by (rule rd_eqI [where m = "- 6485183463413512" and k = 56, simplified]) simp_all

lemma rd_val_15 [rd_vals]:
  "rd (450359962737049 / 8556839292003943) = Number (3792504949364623 / 72057594037927936)"
  by (rule rd_eqI [where m = "7585009898729246" and k = 57, simplified]) simp_all

lemma rd_val_16 [rd_vals]:
  "rd (94812623734115575 / 18014398509481984) = Number (5925788983382223 / 1125899906842624)"
  by (rule rd_eqI [where m = "5925788983382223" and k = 50, simplified]) simp_all

lemma rd_val_17 [rd_vals]:
  "rd (1000) = Number (1000)"
  by (rule rd_eqI [where m = "8796093022208000" and k = 43, simplified]) simp_all

lemma rd_val_18 [rd_vals]:
  "rd (8640000000) = Number (8640000000)"
  by (rule rd_eqI [where m = "4529848320000000" and k = 19, simplified]) simp_all

lemma rd_val_19 [rd_vals]:
  "rd (100) = Number (100)"
  by (rule rd_eqI [where m = "7036874417766400" and k = 46, simplified]) simp_all

lemma rd_val_20 [rd_vals]:
  "rd (45035996273705 / 2251799813685248) = Number (45035996273705 / 2251799813685248)"
  by (rule rd_eqI [where m = "5764607523034240" and k = 58, simplified]) simp_all

lemma rd_val_21 [rd_vals]:
  "rd (45035996273705 / 1125899906842624) = Number (45035996273705 / 1125899906842624)"
  by (rule rd_eqI [where m = "5764607523034240" and k = 57, simplified]) simp_all

lemma rd_val_22 [rd_vals]:
  "rd (3 / 5) = Number (5404319552844595 / 9007199254740992)"
  by (rule rd_eqI [where m = "5404319552844595" and k = 53, simplified]) simp_all

lemma rd_val_23 [rd_vals]:
  "rd (29 / 50) = Number (5224175567749775 / 9007199254740992)"
  by (rule rd_eqI [where m = "5224175567749775" and k = 53, simplified]) simp_all

lemma rd_val_24 [rd_vals]:
  "rd (5404319552844595 / 4503599627370496) = Number (5404319552844595 / 4503599627370496)"
  by (rule rd_eqI [where m = "5404319552844595" and k = 52, simplified]) simp_all

lemma rd_val_25 [rd_vals]:
  "rd (5224175567749775 / 4503599627370496) = Number (5224175567749775 / 4503599627370496)"
  by (rule rd_eqI [where m = "5224175567749775" and k = 52, simplified]) simp_all

lemma rd_val_26 [rd_vals]:
  "rd (- (900719925474099 / 4503599627370496)) = Number (- (900719925474099 / 4503599627370496))"
  by (rule rd_eqI [where m = "- 7205759403792792" and k = 55, simplified]) simp_all

lemma rd_val_27 [rd_vals]:
  "rd (720575940379279 / 4503599627370496) = Number (720575940379279 / 4503599627370496)"
  by (rule rd_eqI [where m = "5764607523034232" and k = 55, simplified]) simp_all

lemma rd_val_28 [rd_vals]:
  "rd (18014398509481975 / 1125899906842624) = Number (2251799813685247 / 140737488355328)"
  by (rule rd_tieI [where f = "9007199254740987" and k = 49, simplified]) simp_all

lemma rd_val_29 [rd_vals]:
  "rd (1 / 2) = Number (1 / 2)"
  by (rule rd_eqI [where m = "4503599627370496" and k = 53, simplified]) simp_all

lemma rd_val_30 [rd_vals]:
  "rd (3 / 4) = Number (3 / 4)"
  by (rule rd_eqI [where m = "6755399441055744" and k = 53, simplified]) simp_all

lemma rd_val_31 [rd_vals]:
  "rd (5 / 4) = Number (5 / 4)"
  by (rule rd_eqI [where m = "5629499534213120" and k = 52, simplified]) simp_all

lemma rd_val_32 [rd_vals]:
  "rd (- (1 / 4)) = Number (- (1 / 4))"
  by (rule rd_eqI [where m = "- 4503599627370496" and k = 54, simplified]) simp_all

lemma rd_val_33 [rd_vals]:
  "rd (1 / 4) = Number (1 / 4)"
  by (rule rd_eqI [where m = "4503599627370496" and k = 54, simplified]) simp_all

lemma rd_val_34 [rd_vals]:
  "rd (25) = Number (25)"
  by (rule rd_eqI [where m = "7036874417766400" and k = 48, simplified]) simp_all

lemma rd_val_35 [rd_vals]:
  "rd (51 / 100) = Number (2296835809958953 / 4503599627370496)"
  by (rule rd_eqI [where m = "4593671619917906" and k = 53, simplified]) simp_all

lemma rd_val_36 [rd_vals]:
  "rd (103 / 200) = Number (4638707616191611 / 9007199254740992)"
  by (rule rd_eqI [where m = "4638707616191611" and k = 53, simplified]) simp_all

lemma rd_val_37 [rd_vals]:
  "rd (101 / 200) = Number (4548635623644201 / 9007199254740992)"
  by (rule rd_eqI [where m = "4548635623644201" and k = 53, simplified]) simp_all

lemma rd_val_38 [rd_vals]:
  "rd (9232379236109517 / 9007199254740992) = Number (2308094809027379 / 2251799813685248)"
  by (rule rd_tieI [where f = "4616189618054758" and k = 52, simplified]) simp_all

lemma rd_val_39 [rd_vals]:
  "rd (9052235251014697 / 9007199254740992) = Number (1131529406376837 / 1125899906842624)"
  by (rule rd_tieI [where f = "4526117625507348" and k = 52, simplified]) simp_all

lemma rd_val_40 [rd_vals]:
  "rd (- (56294995342131 / 2251799813685248)) = Number (- (56294995342131 / 2251799813685248))"
  by (rule rd_eqI [where m = "- 7205759403792768" and k = 58, simplified]) simp_all

lemma rd_val_41 [rd_vals]:
  "rd (5629499534213 / 1125899906842624) = Number (5629499534213 / 1125899906842624)"
  by (rule rd_eqI [where m = "5764607523034112" and k = 60, simplified]) simp_all

lemma rd_val_42 [rd_vals]:
  "rd (140737488355325 / 281474976710656) = Number (140737488355325 / 281474976710656)"
  by (rule rd_eqI [where m = "9007199254740800" and k = 54, simplified]) simp_all

lemma rd_val_43 [rd_vals]:
  "rd (21 / 50) = Number (7566047373982433 / 18014398509481984)"
  by (rule rd_eqI [where m = "7566047373982433" and k = 54, simplified]) simp_all

lemma rd_val_44 [rd_vals]:
  "rd (17473966554197525 / 18014398509481984) = Number (4368491638549381 / 4503599627370496)"
  by (rule rd_tieI [where f = "8736983277098762" and k = 53, simplified]) simp_all

lemma rd_val_45 [rd_vals]:
  "rd (8376695306909123 / 9007199254740992) = Number (8376695306909123 / 9007199254740992)"
  by (rule rd_eqI [where m = "8376695306909123" and k = 53, simplified]) simp_all

lemma rd_val_46 [rd_vals]:
  "rd (135107988821115 / 4503599627370496) = Number (135107988821115 / 4503599627370496)"
  by (rule rd_eqI [where m = "8646911284551360" and k = 58, simplified]) simp_all

lemma rd_val_47 [rd_vals]:
  "rd (- (630503947831869 / 9007199254740992)) = Number (- (630503947831869 / 9007199254740992))"
  by (rule rd_eqI [where m = "- 5044031582654952" and k = 56, simplified]) simp_all

lemma rd_val_48 [rd_vals]:
  "rd (135107988821115 / 4368491638549381) = Number (1114292691308165 / 36028797018963968)"
  by (rule rd_eqI [where m = "8914341530465320" and k = 58, simplified]) simp_all

lemma rd_val_49 [rd_vals]:
  "rd (27857317282704125 / 9007199254740992) = Number (6964329320676031 / 2251799813685248)"
  by (rule rd_eqI [where m = "6964329320676031" and k = 51, simplified]) simp_all

lemma rd_val_50 [rd_vals]:
  "rd (360287970189639 / 18014398509481984) = Number (360287970189639 / 18014398509481984)"
  by (rule rd_eqI [where m = "5764607523034224" and k = 58, simplified]) simp_all

lemma rd_val_51 [rd_vals]:
  "rd (720575940379279 / 18014398509481984) = Number (720575940379279 / 18014398509481984)"
  by (rule rd_eqI [where m = "5764607523034232" and k = 57, simplified]) simp_all

lemma rd_val_52 [rd_vals]:
  "rd (720575940379279 / 36028797018963968) = Number (720575940379279 / 36028797018963968)"
  by (rule rd_eqI [where m = "5764607523034232" and k = 58, simplified]) simp_all

lemma rd_val_53 [rd_vals]:
  "rd (2000) = Number (2000)"
  by (rule rd_eqI [where m = "8796093022208000" and k = 42, simplified]) simp_all

lemma rd_val_54 [rd_vals]:
  "rd (14771806777775227 / 18014398509481984) = Number (3692951694443807 / 4503599627370496)"
  by (rule rd_tieI [where f = "7385903388887613" and k = 53, simplified]) simp_all

lemma rd_val_55 [rd_vals]:
  "rd (3692951694443807 / 9007199254740992) = Number (3692951694443807 / 9007199254740992)"
  by (rule rd_eqI [where m = "7385903388887614" and k = 54, simplified]) simp_all

lemma rd_val_56 [rd_vals]:
  "rd (607985949695017 / 562949953421312) = Number (607985949695017 / 562949953421312)"
  by (rule rd_eqI [where m = "4863887597560136" and k = 52, simplified]) simp_all

lemma rd_val_57 [rd_vals]:
  "rd (607985949695017 / 1125899906842624) = Number (607985949695017 / 1125899906842624)"
  by (rule rd_eqI [where m = "4863887597560136" and k = 53, simplified]) simp_all

section \<open>Properties of the risk scorer\<close>

lemma penalty_bounds:
  "0 \<le> liquidityPenalty l \<and> liquidityPenalty l \<le> 2"
  "0 \<le> spreadPenalty s \<and> spreadPenalty s \<le> 2"
  "0 \<le> expiryPenalty d \<and> expiryPenalty d \<le> 2"
  "0 \<le> marginPenalty p \<and> marginPenalty p \<le> 1"
  by (simp_all add: liquidityPenalty_def spreadPenalty_def expiryPenalty_def marginPenalty_def)

lemma score_as_sum:
  "score (calculateRiskScore p l s d) =
     min (3 + (liquidityPenalty l + spreadPenalty s + expiryPenalty d + marginPenalty p)) 10"
  by (simp add: calculateRiskScore_def Let_def liquidityPenalty_def spreadPenalty_def
      expiryPenalty_def marginPenalty_def)

lemma factors_as_tags:
  "factors (calculateRiskScore p l s d) =
     liquidityTag l @ spreadTag s @ expiryTag d @ marginTag p"
  by (simp add: calculateRiskScore_def Let_def liquidityTag_def spreadTag_def
      expiryTag_def marginTag_def)

text \<open>
  C2. For all four inputs the score is \<open>min (3 + p) 10\<close>, where \<open>p\<close> adds the
  liquidity penalty (2 below 500, else 1 below 1000), the spread penalty (2 above 0.05,
  else 1 above 0.02), the expiry penalty (2 below one day, else 1 below seven) and the
  margin penalty (1 when the gross profit is below 1 percent); the factor tags are the
  triggered tags in that order; the score never exceeds 10, and the worst case
  3 + 2 + 2 + 2 + 1 is exactly 10.
\<close>

theorem C2_risk_score_formula:
  "score (calculateRiskScore p l s d) =
     min (3 + (liquidityPenalty l + spreadPenalty s + expiryPenalty d + marginPenalty p)) 10
   \<and> factors (calculateRiskScore p l s d) =
     liquidityTag l @ spreadTag s @ expiryTag d @ marginTag p
   \<and> score (calculateRiskScore p l s d) \<le> 10
   \<and> 3 + (liquidityPenalty l + spreadPenalty s + expiryPenalty d + marginPenalty p) \<le> 10
   \<and> score (calculateRiskScore (Number 0.5) (Number 100) (Number 0.06) (Number 0.5)) = 10"
proof -
  have bound: "3 + (liquidityPenalty l + spreadPenalty s + expiryPenalty d + marginPenalty p) \<le> 10"
    using penalty_bounds(1)[of l] penalty_bounds(2)[of s] penalty_bounds(3)[of d]
      penalty_bounds(4)[of p] by linarith
  have worst: "score (calculateRiskScore (Number 0.5) (Number 100) (Number 0.06) (Number 0.5)) = 10"
    by (simp add: calculateRiskScore_def Let_def rd_vals)
  show ?thesis
    using bound worst by (simp add: score_as_sum factors_as_tags)
qed

theorem C2_risk_score_formula_witness:
  "score (calculateRiskScore (Number 0.8) (Number 700) (Number 0.03) NaN) = 6
   \<and> factors (calculateRiskScore (Number 0.8) (Number 700) (Number 0.03) NaN) =
       [''moderate_liquidity'', ''moderate_spread'', ''thin_margin'']"
  using C2_risk_score_formula [of "Number 0.8" "Number 700" "Number 0.03" NaN]
  by (simp add: liquidityPenalty_def spreadPenalty_def expiryPenalty_def marginPenalty_def
      liquidityTag_def spreadTag_def expiryTag_def marginTag_def rd_vals)

text \<open>
  C8. The score is monotonic in each argument separately, the other three held fixed
  (they may be any number, \<open>NaN\<close> included): less liquidity, a wider spread, fewer days
  to expiry or a smaller gross profit never lowers the score.
\<close>

theorem C8_risk_score_monotonic:
  "(l' \<le> l \<longrightarrow> score (calculateRiskScore pf (Number l) sf df)
                \<le> score (calculateRiskScore pf (Number l') sf df))
   \<and> (s \<le> s' \<longrightarrow> score (calculateRiskScore pf lf (Number s) df)
                \<le> score (calculateRiskScore pf lf (Number s') df))
   \<and> (d' \<le> d \<longrightarrow> score (calculateRiskScore pf lf sf (Number d))
                \<le> score (calculateRiskScore pf lf sf (Number d')))
   \<and> (p' \<le> p \<longrightarrow> score (calculateRiskScore (Number p) lf sf df)
                \<le> score (calculateRiskScore (Number p') lf sf df))"
proof -
  have a: "l' \<le> l \<Longrightarrow> liquidityPenalty (Number l) \<le> liquidityPenalty (Number l')"
    by (simp add: liquidityPenalty_def)
  have gt: "\<And>c. s \<le> s' \<Longrightarrow> js_gt (Number s) c \<Longrightarrow> js_gt (Number s') c"
  proof -
    fix c assume "s \<le> s'" and "js_gt (Number s) c"
    then show "js_gt (Number s') c" by (cases c) simp_all
  qed
  have b: "s \<le> s' \<Longrightarrow> spreadPenalty (Number s) \<le> spreadPenalty (Number s')"
    using gt [of "rd 0.05"] gt [of "rd 0.02"] by (simp add: spreadPenalty_def)
  have c: "d' \<le> d \<Longrightarrow> expiryPenalty (Number d) \<le> expiryPenalty (Number d')"
    by (simp add: expiryPenalty_def)
  have e: "p' \<le> p \<Longrightarrow> marginPenalty (Number p) \<le> marginPenalty (Number p')"
    by (simp add: marginPenalty_def)
  show ?thesis
    unfolding score_as_sum using a b c e by auto
qed

theorem C8_risk_score_monotonic_witness:
  "score (calculateRiskScore (Number 2) (Number 1200) (Number 0.01) (Number 30)) = 3
   \<and> score (calculateRiskScore (Number 2) (Number 400) (Number 0.01) (Number 30)) = 5
   \<and> score (calculateRiskScore (Number 2) (Number 1200) (Number 0.06) (Number 30)) = 5
   \<and> score (calculateRiskScore (Number 2) (Number 1200) (Number 0.01) (Number 0.5)) = 5
   \<and> score (calculateRiskScore (Number 0.5) (Number 1200) (Number 0.01) (Number 30)) = 4
   \<and> (3::int) \<le> 5 \<and> (3::int) \<le> 4"
  using C8_risk_score_monotonic [where l' = 400 and l = 1200 and pf = "Number 2"
      and sf = "Number 0.01" and df = "Number 30" and lf = "Number 1200"
      and s = "0.01" and s' = "0.06" and d' = "0.5" and d = 30 and p' = "0.5" and p = 2]
  by (simp add: calculateRiskScore_def Let_def rd_vals)

section \<open>Facts about the loops and the opportunity builder\<close>

lemma batchedScan_map_filter:
  "0 < n \<Longrightarrow> batchedScan n scan ms = List.map_filter scan ms"
proof (induction n scan ms rule: batchedScan.induct)
  case (1 batchSize scan ms)
  show ?case
  proof (cases "ms = []")
    case True
    then show ?thesis by (simp add: batchedScan.simps List.map_filter_simps)
  next
    case False
    have "List.map_filter scan (take batchSize ms) @ List.map_filter scan (drop batchSize ms)
          = List.map_filter scan (take batchSize ms @ drop batchSize ms)"
      by (simp only: List.map_filter_def filter_append map_append)
    then have "List.map_filter scan (take batchSize ms) @ List.map_filter scan (drop batchSize ms)
          = List.map_filter scan ms"
      by (simp only: append_take_drop_id)
    then show ?thesis
      using False 1 by (subst batchedScan.simps) simp
  qed
qed

lemma popOver_take: "popOver n xs = take n xs"
proof (induction n xs rule: popOver.induct)
  case (1 n xs)
  show ?case
  proof (cases "length xs > n")
    case True
    then have "popOver n xs = take n (butlast xs)"
      using 1 by (subst popOver.simps) simp
    also have "\<dots> = take n xs"
      using True by (simp add: take_butlast)
    finally show ?thesis .
  next
    case False
    then show ?thesis by (subst popOver.simps) simp
  qed
qed

lemma scanMarket_analyzable:
  assumes "tokens m = Some (yesId # noId # rest)"
    and "g yesId = Some yesBook" and "g noId = Some noBook"
    and "bestPrices yesBook noBook = Some (ya, yb, na, nb)"
  shows "scanMarket cfg now g m =
           buildOpportunity cfg now m yesId noId (liquidityOf (asks yesBook))
             (liquidityOf (asks noBook)) ya yb na nb"
  using assms by (simp add: scanMarket_def scanMarket_try_def)

lemma buildOpportunity_None_iff:
  "buildOpportunity cfg now m yesId noId yl nl ya yb na nb = None \<longleftrightarrow>
     pDirection (pricingAnalyzer ya yb na nb) = NONE
     \<or> js_lt (pGrossProfitPercent (pricingAnalyzer ya yb na nb)) (minProfitPercent cfg)
     \<or> liquidityRejected cfg yl nl
     \<or> riskRejected cfg now m yl nl ya yb na nb"
  by (simp add: buildOpportunity_def Let_def liquidityRejected_def riskRejected_def)





lemma ex_bestPrices:
  "ya \<noteq> 0 \<Longrightarrow> yb \<noteq> 0 \<Longrightarrow> na \<noteq> 0 \<Longrightarrow> nb \<noteq> 0 \<Longrightarrow>
   bestPrices (exBook (Number ya) (Number yb)) (exBook (Number na) (Number nb))
     = Some (Number ya, Number yb, Number na, Number nb)"
  by (simp add: bestPrices_def bestPrice_def exBook_def exLevel_def)

lemma ex_liquidity: "liquidityOf (asks (exBook a b)) = Number 1000"
  by (simp add: liquidityOf_def sizeOf_def exBook_def exLevel_def truthyNum_def rd_vals)

lemma ex_tokens: "tokens exMarket = Some (''yes'' # ''no'' # [])"
  by (simp add: exMarket_def)

lemma ex_books:
  "exBooks y n ''yes'' = y" "exBooks y n ''no'' = n"
  by (simp_all add: exBooks_def)

lemma ex_days: "daysToExpiryOf (end_date_iso exMarket) 0 = Number 100"
  by (simp add: daysToExpiryOf_def exMarket_def js_sub_def rd_vals)

lemma bestPrices_None:
  "truthy (bestPrice (asks yesBook)) = None \<or> truthy (bestPrice (bids yesBook)) = None
   \<or> truthy (bestPrice (asks noBook)) = None \<or> truthy (bestPrice (bids noBook)) = None
   \<Longrightarrow> bestPrices yesBook noBook = None"
  by (auto simp add: bestPrices_def split: option.splits)


lemma ex_prices_sell:
  "bestPrices (exBook (rd 0.60) (rd 0.58)) (exBook (rd 0.60) (rd 0.58))
     = Some (rd 0.60, rd 0.58, rd 0.60, rd 0.58)"
  by (simp add: rd_vals ex_bestPrices)

lemma ex_prices_dyadic:
  "bestPrices (exBook (Number 0.5) (Number 0.5)) (exBook (Number 0.75) (Number 0.75))
     = Some (Number 0.5, Number 0.5, Number 0.75, Number 0.75)"
  by (simp add: ex_bestPrices)

lemma ex_prices_boundary:
  "bestPrices (exBook (rd 0.51) (rd 0.5)) (exBook (rd 0.515) (rd 0.505))
     = Some (rd 0.51, rd 0.5, rd 0.515, rd 0.505)"
  by (simp add: rd_vals ex_bestPrices)

lemma ex_prices_097:
  "bestPrices (exBook (rd 0.42) (rd 0.40)) (exBook (rd 0.55) (rd 0.53))
     = Some (rd 0.42, rd 0.40, rd 0.55, rd 0.53)"
  by (simp add: rd_vals ex_bestPrices)

lemma pricing_example_097:
  "pricingAnalyzer (rd 0.42) (rd 0.40) (rd 0.55) (rd 0.53) =
     \<lparr>pCombinedAsk = Number (4368491638549381 / 4503599627370496),
      pCombinedBid = Number (8376695306909123 / 9007199254740992),
      pBuyBothProfit = Number (135107988821115 / 4503599627370496),
      pSellBothProfit = Number (- (630503947831869 / 9007199254740992)),
      pDirection = BUY_BOTH,
      pGrossProfitPercent = Number (6964329320676031 / 2251799813685248)\<rparr>"
  by (simp add: pricingAnalyzer_def Let_def js_sub_def rd_vals)

lemma ex_spread_097:
  "avgSpreadOf (rd 0.42) (rd 0.40) (rd 0.55) (rd 0.53)
     = Number (720575940379279 / 36028797018963968)"
  by (simp add: avgSpreadOf_def js_sub_def rd_vals)

lemma ex_risk_097:
  "score (calculateRiskScore (Number (6964329320676031 / 2251799813685248)) (Number 1000)
            (Number (720575940379279 / 36028797018963968)) (Number 100)) = 3"
  by (simp add: calculateRiskScore_def Let_def rd_vals)

lemma ex_build_097:
  "maxRiskScore cfg = Number 7 \<or> maxRiskScore cfg = Number 8 \<Longrightarrow>
   minProfitPercent cfg = Number 0.5 \<or> minProfitPercent cfg = rd 0.1 \<Longrightarrow>
   minLiquidity cfg = Some (Number 100) \<or> minLiquidity cfg = Some (Number 10) \<Longrightarrow>
   buildOpportunity cfg 0 exMarket ''yes'' ''no'' (Number 1000) (Number 1000)
     (rd 0.42) (rd 0.40) (rd 0.55) (rd 0.53) \<noteq> None"
  unfolding buildOpportunity_None_iff riskRejected_def liquidityRejected_def
    pricing_example_097 ex_spread_097 ex_days
  by (auto simp add: js_min_def truthyNum_def ex_risk_097 rd_vals)

lemma ex_scan_097:
  "scanMarket DEFAULT_CONFIG 0
     (exBooks (Some (exBook (rd 0.42) (rd 0.40))) (Some (exBook (rd 0.55) (rd 0.53))))
     exMarket \<noteq> None"
proof -
  let ?g = "exBooks (Some (exBook (rd 0.42) (rd 0.40))) (Some (exBook (rd 0.55) (rd 0.53)))"
  have yes: "?g ''yes'' = Some (exBook (rd 0.42) (rd 0.40))"
    and no: "?g ''no'' = Some (exBook (rd 0.55) (rd 0.53))"
    by (simp_all add: ex_books)
  show ?thesis
    unfolding scanMarket_analyzable [OF ex_tokens yes no ex_prices_097] ex_liquidity
    by (rule ex_build_097) (simp_all add: DEFAULT_CONFIG_def)
qed




section \<open>Pricing and direction\<close>




section \<open>The profit threshold\<close>

lemma pricing_example_dyadic:
  "pricingAnalyzer (Number 0.5) (Number 0.5) (Number 0.75) (Number 0.75) =
     \<lparr>pCombinedAsk = Number (5 / 4), pCombinedBid = Number (5 / 4),
      pBuyBothProfit = Number (- (1 / 4)), pSellBothProfit = Number (1 / 4),
      pDirection = SELL_BOTH, pGrossProfitPercent = Number 25\<rparr>"
  by (simp add: pricingAnalyzer_def Let_def js_sub_def rd_vals)

lemma ex_spread_dyadic:
  "avgSpreadOf (Number 0.5) (Number 0.5) (Number 0.75) (Number 0.75) = Number 0"
  by (simp add: avgSpreadOf_def js_sub_def rd_0)

lemma ex_risk_dyadic:
  "score (calculateRiskScore (Number 25) (Number 1000) (Number 0) (Number 100)) = 3"
  by (simp add: calculateRiskScore_def Let_def rd_vals)

lemma pricing_example_boundary:
  "pricingAnalyzer (rd 0.51) (rd 0.5) (rd 0.515) (rd 0.505) =
     \<lparr>pCombinedAsk = Number (2308094809027379 / 2251799813685248),
      pCombinedBid = Number (1131529406376837 / 1125899906842624),
      pBuyBothProfit = Number (- (56294995342131 / 2251799813685248)),
      pSellBothProfit = Number (5629499534213 / 1125899906842624),
      pDirection = SELL_BOTH,
      pGrossProfitPercent = Number (140737488355325 / 281474976710656)\<rparr>"
  by (simp add: pricingAnalyzer_def Let_def js_sub_def rd_vals)

text \<open>
  C3. For an analyzable market with a direction other than \<open>NONE\<close>, a gross profit
  percent (the number the builder has computed) below \<open>minProfitPercent\<close> is rejected;
  a gross profit percent that is not below it is rejected only by the later liquidity or
  risk check, so a market exactly at the threshold is accepted when those pass, and one
  any positive amount below it is rejected.
\<close>

theorem C3_profit_threshold_inclusive:
  assumes tok: "tokens m = Some (yesId # noId # rest)"
    and yes: "getBook yesId = Some yesBook"
    and no: "getBook noId = Some noBook"
    and prices: "bestPrices yesBook noBook = Some (ya, yb, na, nb)"
    and dir: "pDirection (pricingAnalyzer ya yb na nb) \<noteq> NONE"
  shows "(js_lt (pGrossProfitPercent (pricingAnalyzer ya yb na nb)) (minProfitPercent cfg) \<longrightarrow>
            scanMarket cfg now getBook m = None)
    \<and> (\<not> js_lt (pGrossProfitPercent (pricingAnalyzer ya yb na nb)) (minProfitPercent cfg) \<longrightarrow>
          (scanMarket cfg now getBook m = None \<longleftrightarrow>
             liquidityRejected cfg (liquidityOf (asks yesBook)) (liquidityOf (asks noBook))
             \<or> riskRejected cfg now m (liquidityOf (asks yesBook)) (liquidityOf (asks noBook))
                  ya yb na nb))
    \<and> (pGrossProfitPercent (pricingAnalyzer ya yb na nb) = minProfitPercent cfg
         \<and> \<not> liquidityRejected cfg (liquidityOf (asks yesBook)) (liquidityOf (asks noBook))
         \<and> \<not> riskRejected cfg now m (liquidityOf (asks yesBook)) (liquidityOf (asks noBook))
                  ya yb na nb
         \<longrightarrow> scanMarket cfg now getBook m \<noteq> None)
    \<and> (\<forall>c. \<forall>eps > 0. minProfitPercent cfg = Number c
         \<and> pGrossProfitPercent (pricingAnalyzer ya yb na nb) = Number (c - eps)
         \<longrightarrow> scanMarket cfg now getBook m = None)"
proof -
  have eq: "\<And>x. \<not> js_lt x x"
  proof -
    fix x show "\<not> js_lt x x" by (cases x) simp_all
  qed
  show ?thesis
    unfolding scanMarket_analyzable [OF tok yes no prices] buildOpportunity_None_iff
    using dir eq by auto
qed

theorem C3_profit_threshold_inclusive_witness:
  "scanMarket (DEFAULT_CONFIG\<lparr>minProfitPercent := Number 25\<rparr>) 0
     (exBooks (Some (exBook (Number 0.5) (Number 0.5))) (Some (exBook (Number 0.75) (Number 0.75))))
     exMarket \<noteq> None
   \<and> scanMarket (DEFAULT_CONFIG\<lparr>minProfitPercent := Number 25.5\<rparr>) 0
     (exBooks (Some (exBook (Number 0.5) (Number 0.5))) (Some (exBook (Number 0.75) (Number 0.75))))
     exMarket = None
   \<and> scanMarket DEFAULT_CONFIG 0
     (exBooks (Some (exBook (rd 0.51) (rd 0.5))) (Some (exBook (rd 0.515) (rd 0.505))))
     exMarket = None"
proof -
  let ?g = "exBooks (Some (exBook (Number 0.5) (Number 0.5)))
              (Some (exBook (Number 0.75) (Number 0.75)))"
  let ?h = "exBooks (Some (exBook (rd 0.51) (rd 0.5))) (Some (exBook (rd 0.515) (rd 0.505)))"
  have yes: "?g ''yes'' = Some (exBook (Number 0.5) (Number 0.5))"
    and no: "?g ''no'' = Some (exBook (Number 0.75) (Number 0.75))"
    and yes': "?h ''yes'' = Some (exBook (rd 0.51) (rd 0.5))"
    and no': "?h ''no'' = Some (exBook (rd 0.515) (rd 0.505))"
    by (simp_all add: ex_books)
  have dir: "pDirection (pricingAnalyzer (Number 0.5) (Number 0.5) (Number 0.75) (Number 0.75))
               \<noteq> NONE"
    and gross: "pGrossProfitPercent
                  (pricingAnalyzer (Number 0.5) (Number 0.5) (Number 0.75) (Number 0.75))
                = Number 25"
    unfolding pricing_example_dyadic by simp_all
  have dir': "pDirection (pricingAnalyzer (rd 0.51) (rd 0.5) (rd 0.515) (rd 0.505)) \<noteq> NONE"
    and gross': "pGrossProfitPercent (pricingAnalyzer (rd 0.51) (rd 0.5) (rd 0.515) (rd 0.505))
                = Number (140737488355325 / 281474976710656)"
    unfolding pricing_example_boundary by simp_all
  have liq: "\<not> liquidityRejected (DEFAULT_CONFIG\<lparr>minProfitPercent := Number 25\<rparr>)
                 (Number 1000) (Number 1000)"
    by (simp add: liquidityRejected_def DEFAULT_CONFIG_def js_min_def truthyNum_def)
  have rsk: "\<not> riskRejected (DEFAULT_CONFIG\<lparr>minProfitPercent := Number 25\<rparr>) 0 exMarket
                 (Number 1000) (Number 1000) (Number 0.5) (Number 0.5) (Number 0.75) (Number 0.75)"
    unfolding riskRejected_def pricing_example_dyadic ex_spread_dyadic ex_days
    by (simp add: js_min_def ex_risk_dyadic DEFAULT_CONFIG_def)
  show ?thesis
    using C3_profit_threshold_inclusive [OF ex_tokens yes no ex_prices_dyadic dir,
        of "DEFAULT_CONFIG\<lparr>minProfitPercent := Number 25\<rparr>" 0]
      C3_profit_threshold_inclusive [OF ex_tokens yes no ex_prices_dyadic dir,
        of "DEFAULT_CONFIG\<lparr>minProfitPercent := Number 25.5\<rparr>" 0]
      C3_profit_threshold_inclusive [OF ex_tokens yes' no' ex_prices_boundary dir',
        of DEFAULT_CONFIG 0]
      gross gross' liq rsk
    by (simp add: ex_liquidity DEFAULT_CONFIG_def)
qed

section \<open>Unusable snapshots\<close>

lemma scanMarket_try_no_prices:
  assumes "tokens m = Some (yesId # noId # rest)"
    and "getBook yesId = None \<or> getBook noId = None
         \<or> (\<exists>yesBook noBook. getBook yesId = Some yesBook \<and> getBook noId = Some noBook
               \<and> bestPrices yesBook noBook = None)"
  shows "scanMarket_try cfg now getBook m = Inr None"
  using assms by (auto simp add: scanMarket_try_def split: option.splits)

lemma scanMarketForArbitrage_no_prices:
  assumes "tokens m = Some (yesId # noId # rest)"
    and "getBook yesId = None \<or> getBook noId = None
         \<or> (\<exists>yesBook noBook. getBook yesId = Some yesBook \<and> getBook noId = Some noBook
               \<and> bestPrices yesBook noBook = None)"
  shows "scanMarketForArbitrage cfg now getBook m tr = (None, tr)"
  using assms by (auto simp add: scanMarketForArbitrage_def split: option.splits)

lemma analyzeMarket_no_prices:
  assumes "tokens m = Some (yesId # noId # rest)"
    and "getBook yesId = None \<or> getBook noId = None
         \<or> (\<exists>yesBook noBook. getBook yesId = Some yesBook \<and> getBook noId = Some noBook
               \<and> bestPrices yesBook noBook = None)"
  shows "analyzeMarket getBook m = None"
  using assms by (auto simp add: analyzeMarket_def split: option.splits)

lemma incomplete_no_prices:
  assumes "incomplete (getBook yesId) \<or> incomplete (getBook noId)"
  shows "getBook yesId = None \<or> getBook noId = None
         \<or> (\<exists>yesBook noBook. getBook yesId = Some yesBook \<and> getBook noId = Some noBook
               \<and> bestPrices yesBook noBook = None)"
proof (cases "getBook yesId")
  case None
  then show ?thesis by simp
next
  case yes: (Some yesBook)
  show ?thesis
  proof (cases "getBook noId")
    case None
    then show ?thesis by simp
  next
    case no: (Some noBook)
    from assms yes no have "bestPrice (asks yesBook) = None \<or> bestPrice (bids yesBook) = None
        \<or> bestPrice (asks noBook) = None \<or> bestPrice (bids noBook) = None"
      by (auto simp add: incomplete_def)
    then have "bestPrices yesBook noBook = None"
      by (intro bestPrices_None) auto
    with yes no show ?thesis by simp
  qed
qed

text \<open>
  C9. When the snapshot of either token is incomplete (its fetch failed, or its first
  ask or first bid has no price), the analysis of the market returns no opportunity: the
  \<open>try\<close> block itself returns \<open>null\<close> (nothing is thrown), whatever the configuration
  and the clock are, and the standalone scanner leaves its tracking arrays untouched.
\<close>

theorem C9_incomplete_snapshot_unusable:
  assumes tok: "tokens m = Some (yesId # noId # rest)"
    and inc: "incomplete (getBook yesId) \<or> incomplete (getBook noId)"
  shows "scanMarket_try cfg now getBook m = Inr None
    \<and> scanMarket cfg now getBook m = None
    \<and> scanMarketForArbitrage cfg now getBook m tr = (None, tr)"
proof -
  have np: "getBook yesId = None \<or> getBook noId = None
         \<or> (\<exists>yesBook noBook. getBook yesId = Some yesBook \<and> getBook noId = Some noBook
               \<and> bestPrices yesBook noBook = None)"
    using inc by (rule incomplete_no_prices [where getBook = getBook])
  show ?thesis
    using scanMarket_try_no_prices [OF tok np] scanMarketForArbitrage_no_prices [OF tok np]
    by (simp add: scanMarket_def)
qed

theorem C9_incomplete_snapshot_unusable_witness:
  "scanMarket_try DEFAULT_CONFIG 0 (exBooks (Some (exBook (rd 0.40) (rd 0.38))) None) exMarket
     = Inr None
   \<and> scanMarket DEFAULT_CONFIG 0 (exBooks (Some (exBook (rd 0.40) (rd 0.38))) None) exMarket
     = None
   \<and> scanMarket DEFAULT_CONFIG 0
        (exBooks (Some (exBook (rd 0.40) (rd 0.38)))
                 (Some \<lparr>asks = Some [], bids = Some [exLevel (rd 0.53)]\<rparr>))
        exMarket = None"
proof -
  have a: "incomplete (exBooks (Some (exBook (rd 0.40) (rd 0.38))) None ''yes'')
      \<or> incomplete (exBooks (Some (exBook (rd 0.40) (rd 0.38))) None ''no'')"
    by (simp add: ex_books incomplete_def)
  have b: "incomplete (exBooks (Some (exBook (rd 0.40) (rd 0.38)))
             (Some \<lparr>asks = Some [], bids = Some [exLevel (rd 0.53)]\<rparr>) ''yes'')
      \<or> incomplete (exBooks (Some (exBook (rd 0.40) (rd 0.38)))
             (Some \<lparr>asks = Some [], bids = Some [exLevel (rd 0.53)]\<rparr>) ''no'')"
    by (simp add: ex_books incomplete_def bestPrice_def)
  show ?thesis
    using C9_incomplete_snapshot_unusable [OF ex_tokens a, of DEFAULT_CONFIG 0]
      C9_incomplete_snapshot_unusable [OF ex_tokens b, of DEFAULT_CONFIG 0]
    by simp
qed

lemma handler_single_None:
  assumes "analyzeMarket getBook m = None"
  shows "handler \<lparr>envMarkets = Some [m], envOrderBook = getBook, envNow = now,
                  envDelivered = d\<rparr>
         = Inr \<lparr>resp_opportunities = [], resp_nearMisses = [], resp_liveMarkets = [],
                resp_marketsScanned = 0\<rparr>"
  using assms
  by (simp add: handler_def Let_def batchedScan_map_filter List.map_filter_simps sortBy_def)

text \<open>
  C10. A snapshot whose best bid or best ask parses to exactly 0 is treated like a
  missing side: the service returns no opportunity, the standalone scanner returns none
  and adds neither a live market nor a near miss, and the endpoint's analysis is
  \<open>null\<close>, so that a catalog of this one market yields three empty lists.
\<close>

theorem C10_zero_price_unusable:
  assumes tok: "tokens m = Some (yesId # noId # rest)"
    and yes: "getBook yesId = Some yesBook"
    and no: "getBook noId = Some noBook"
    and zero: "zeroPriced yesBook \<or> zeroPriced noBook"
  shows "scanMarket cfg now getBook m = None
    \<and> scanMarketForArbitrage cfg now getBook m tr = (None, tr)
    \<and> analyzeMarket getBook m = None
    \<and> handler \<lparr>envMarkets = Some [m], envOrderBook = getBook, envNow = now,
                envDelivered = d\<rparr>
        = Inr \<lparr>resp_opportunities = [], resp_nearMisses = [], resp_liveMarkets = [],
               resp_marketsScanned = 0\<rparr>"
proof -
  from zero have "bestPrices yesBook noBook = None"
    by (intro bestPrices_None) (auto simp add: zeroPriced_def)
  with yes no have np: "getBook yesId = None \<or> getBook noId = None
         \<or> (\<exists>yesBook noBook. getBook yesId = Some yesBook \<and> getBook noId = Some noBook
               \<and> bestPrices yesBook noBook = None)"
    by simp
  show ?thesis
    using scanMarket_try_no_prices [OF tok np] scanMarketForArbitrage_no_prices [OF tok np]
      analyzeMarket_no_prices [OF tok np] handler_single_None
    by (simp add: scanMarket_def)
qed

theorem C10_zero_price_unusable_witness:
  "scanMarket DEFAULT_CONFIG 0 (exBooks (Some (exBook (rd 0.40) (Number 0)))
                                        (Some (exBook (rd 0.55) (rd 0.53))))
     exMarket = None
   \<and> scanMarketForArbitrage DEFAULT_CONFIG 0
       (exBooks (Some (exBook (rd 0.40) (Number 0))) (Some (exBook (rd 0.55) (rd 0.53)))) exMarket
       \<lparr>nearMisses = [], liveMarkets = []\<rparr> = (None, \<lparr>nearMisses = [], liveMarkets = []\<rparr>)
   \<and> analyzeMarket (exBooks (Some (exBook (rd 0.40) (Number 0)))
                                 (Some (exBook (rd 0.55) (rd 0.53)))) exMarket = None"
proof -
  have z: "zeroPriced (exBook (rd 0.40) (Number 0)) \<or> zeroPriced (exBook (rd 0.55) (rd 0.53))"
    by (simp add: zeroPriced_def bestPrice_def exBook_def exLevel_def)
  have yes: "exBooks (Some (exBook (rd 0.40) (Number 0))) (Some (exBook (rd 0.55) (rd 0.53))) ''yes''
               = Some (exBook (rd 0.40) (Number 0))"
    and no: "exBooks (Some (exBook (rd 0.40) (Number 0))) (Some (exBook (rd 0.55) (rd 0.53))) ''no''
               = Some (exBook (rd 0.55) (rd 0.53))"
    by (simp_all add: ex_books)
  show ?thesis
    using C10_zero_price_unusable [OF ex_tokens yes no z, of DEFAULT_CONFIG 0
        "\<lparr>nearMisses = [], liveMarkets = []\<rparr>"]
    by simp
qed

section \<open>Single flight\<close>

lemma runScan_try_isScanning: "isScanning (snd (runScan_try env s)) = isScanning s"
  by (simp add: runScan_try_def Let_def split: option.splits)

lemma PolyClaudeServer_addAlert_isScanning:
  "srv_isScanning (PolyClaudeServer_addAlert srv opp) = srv_isScanning srv"
  by (simp add: PolyClaudeServer_addAlert_def Let_def)

lemma addFound_isScanning: "srv_isScanning (addFound srv rs) = srv_isScanning srv"
  by (induction srv rs rule: addFound.induct) (simp_all add: PolyClaudeServer_addAlert_isScanning)

lemma scanBatches_isScanning: "srv_isScanning (scanBatches env srv ms) = srv_isScanning srv"
proof (induction env srv ms rule: scanBatches.induct)
  case (1 env srv ms)
  show ?case
  proof (cases "ms = []")
    case True
    then show ?thesis by (subst scanBatches.simps) simp
  next
    case False
    then show ?thesis
      using 1 by (subst scanBatches.simps) (simp add: Let_def addFound_isScanning)
  qed
qed

text \<open>
  C7. A scan requested while the scanning flag is set returns the empty result at once
  and leaves the whole state as it is, so nothing is queued; the state in which a cycle
  runs has the flag set and keeps it set until the cycle ends, so a request arriving
  then is dropped; and after a cycle, with or without a catalog, the flag (and the
  terminal server's copy) is false again. The same holds for the standalone server.
\<close>

theorem C7_single_flight:
  "(isScanning s \<longrightarrow> runScan env s = ([], s))
   \<and> (\<not> isScanning s \<longrightarrow>
        isScanning (runScan_enter s)
        \<and> runScan env' (runScan_enter s) = ([], runScan_enter s)
        \<and> \<not> isScanning (snd (runScan env s))
        \<and> (\<forall>t. terminalServer (snd (runScan env s)) = Some t \<longrightarrow> \<not> ts_isScanning t))
   \<and> (srv_isScanning srv \<longrightarrow> server_runScan env srv = srv)
   \<and> (\<not> srv_isScanning srv \<longrightarrow> \<not> srv_isScanning (server_runScan env srv))
   \<and> isScanning (snd (runScan_try env (runScan_enter s)))
   \<and> srv_isScanning (server_runScan_enter srv)
   \<and> server_runScan env' (server_runScan_enter srv) = server_runScan_enter srv
   \<and> srv_isScanning (scanBatches env (server_runScan_enter srv) ms)"
proof -
  have a: "isScanning s \<longrightarrow> runScan env s = ([], s)"
    by (simp add: runScan_def)
  have b: "isScanning (runScan_enter s)"
    by (simp add: runScan_enter_def)
  then have c: "runScan env' (runScan_enter s) = ([], runScan_enter s)"
    by (simp add: runScan_def)
  have d: "\<not> isScanning s \<longrightarrow> \<not> isScanning (snd (runScan env s))
      \<and> (\<forall>t. terminalServer (snd (runScan env s)) = Some t \<longrightarrow> \<not> ts_isScanning t)"
    by (auto simp add: runScan_def runScan_finally_def setScanning_def Let_def)
  have e: "srv_isScanning srv \<longrightarrow> server_runScan env srv = srv"
    by (simp add: server_runScan_def)
  have f: "\<not> srv_isScanning srv \<longrightarrow> \<not> srv_isScanning (server_runScan env srv)"
    by (simp add: server_runScan_def Let_def)
  have g: "isScanning (snd (runScan_try env (runScan_enter s)))"
    using b by (simp add: runScan_try_isScanning)
  have h: "srv_isScanning (server_runScan_enter srv)"
    by (simp add: server_runScan_enter_def)
  then have i: "server_runScan env' (server_runScan_enter srv) = server_runScan_enter srv"
    by (simp add: server_runScan_def)
  have j: "srv_isScanning (scanBatches env (server_runScan_enter srv) ms)"
    using h by (simp add: scanBatches_isScanning)
  show ?thesis
    using a b c d e f g h i j by blast
qed

theorem C7_single_flight_witness:
  "runScan (exEnv [exMarket] (exBooks None None)) (exService\<lparr>isScanning := True\<rparr>)
     = ([], exService\<lparr>isScanning := True\<rparr>)
   \<and> \<not> isScanning (snd (runScan (exEnv [exMarket] (exBooks None None)) exService))
   \<and> \<not> isScanning (snd (runScan
         ((exEnv [] (exBooks None None))\<lparr>envMarkets := None\<rparr>) exService))
   \<and> server_runScan (exEnv [exMarket] (exBooks None None)) (exServer\<lparr>srv_isScanning := True\<rparr>)
     = exServer\<lparr>srv_isScanning := True\<rparr>
   \<and> \<not> srv_isScanning (server_runScan (exEnv [exMarket] (exBooks None None)) exServer)"
  using C7_single_flight [where s = "exService\<lparr>isScanning := True\<rparr>"
      and env = "exEnv [exMarket] (exBooks None None)"
      and env' = "exEnv [exMarket] (exBooks None None)"
      and srv = "exServer\<lparr>srv_isScanning := True\<rparr>" and ms = "[]"]
    C7_single_flight [where s = exService and env = "exEnv [exMarket] (exBooks None None)"
      and env' = "exEnv [exMarket] (exBooks None None)" and srv = exServer and ms = "[]"]
    C7_single_flight [where s = exService
      and env = "(exEnv [] (exBooks None None))\<lparr>envMarkets := None\<rparr>"
      and env' = "exEnv [exMarket] (exBooks None None)" and srv = exServer and ms = "[]"]
  by (simp add: exService_def exServer_def)

section \<open>The alert gate\<close>

text \<open>
  The boundary of the cooldown. With the last alert at time 1000 and a cooldown of
  60000, an attempt at time 61000 is exactly one cooldown later: the elapsed time is not
  below the cooldown, and still the attempt is suppressed.
\<close>

theorem C6_cooldown_boundary_counterexample:
  "lastAlertTime exGate ''0xc1'' = Some 1000
   \<and> \<not> ((61000::real) - 1000 < cooldownMs exGate)
   \<and> \<not> shouldSendAlert exGate 61000 ''0xc1''
   \<and> sendArbitrageAlert exGate 61000 61000 True True exOpp = (False, exGate)"
  by (simp add: exGate_def exOpp_def sendArbitrageAlert_def shouldSendAlert_def)

text \<open>
  C6 (amended). For a market key, the gate suppresses an attempt, returning false and
  changing nothing, if and only if a last alert time other than 0 is recorded for the key
  and the time elapsed since then is at most the cooldown. When the attempt is allowed
  and a delivery succeeds (the Markdown message, or else the plain one, on a configured
  bot), the last alert time of the key becomes the time read then; when no delivery
  succeeds the gate is unchanged, so a later attempt is allowed once more than the
  cooldown has passed since the recorded time.
\<close>

theorem C6_alert_gate_cooldown:
  "(\<not> shouldSendAlert gate now (marketId opp) \<longleftrightarrow>
      (\<exists>t. lastAlertTime gate (marketId opp) = Some t \<and> t \<noteq> 0 \<and> now - t \<le> cooldownMs gate))
   \<and> (\<not> shouldSendAlert gate now (marketId opp) \<longrightarrow>
        sendArbitrageAlert gate now now' markdownOk plainOk opp = (False, gate))
   \<and> (shouldSendAlert gate now (marketId opp) \<and> configured gate \<and> (markdownOk \<or> plainOk) \<longrightarrow>
        sendArbitrageAlert gate now now' markdownOk plainOk opp
          = (True, gate\<lparr>lastAlertTime := (lastAlertTime gate)(marketId opp \<mapsto> now')\<rparr>))
   \<and> (shouldSendAlert gate now (marketId opp) \<and> \<not> (configured gate \<and> (markdownOk \<or> plainOk)) \<longrightarrow>
        sendArbitrageAlert gate now now' markdownOk plainOk opp = (False, gate))
   \<and> (\<forall>t later. lastAlertTime gate (marketId opp) = Some t
         \<and> \<not> (configured gate \<and> (markdownOk \<or> plainOk)) \<and> later - t > cooldownMs gate \<longrightarrow>
        shouldSendAlert (snd (sendArbitrageAlert gate now now' markdownOk plainOk opp)) later
          (marketId opp))"
proof -
  have a: "\<not> shouldSendAlert gate now (marketId opp) \<longleftrightarrow>
      (\<exists>t. lastAlertTime gate (marketId opp) = Some t \<and> t \<noteq> 0 \<and> now - t \<le> cooldownMs gate)"
    by (auto simp add: shouldSendAlert_def split: option.splits)
  have b: "\<not> shouldSendAlert gate now (marketId opp) \<longrightarrow>
        sendArbitrageAlert gate now now' markdownOk plainOk opp = (False, gate)"
    by (simp add: sendArbitrageAlert_def)
  have c: "shouldSendAlert gate now (marketId opp) \<and> configured gate \<and> (markdownOk \<or> plainOk) \<longrightarrow>
        sendArbitrageAlert gate now now' markdownOk plainOk opp
          = (True, gate\<lparr>lastAlertTime := (lastAlertTime gate)(marketId opp \<mapsto> now')\<rparr>)"
    by (auto simp add: sendArbitrageAlert_def sendMessage_def Let_def)
  have d: "\<not> (configured gate \<and> (markdownOk \<or> plainOk)) \<longrightarrow>
        sendArbitrageAlert gate now now' markdownOk plainOk opp = (False, gate)"
    by (auto simp add: sendArbitrageAlert_def sendMessage_def Let_def)
  have e: "\<forall>t later. lastAlertTime gate (marketId opp) = Some t
         \<and> \<not> (configured gate \<and> (markdownOk \<or> plainOk)) \<and> later - t > cooldownMs gate \<longrightarrow>
        shouldSendAlert (snd (sendArbitrageAlert gate now now' markdownOk plainOk opp)) later
          (marketId opp)"
    using d by (auto simp add: shouldSendAlert_def)
  show ?thesis
    using a b c d e by blast
qed

theorem C6_alert_gate_cooldown_witness:
  "\<not> shouldSendAlert exGate 61000 (marketId exOpp)
   \<and> shouldSendAlert exGate 61001 (marketId exOpp)
   \<and> sendArbitrageAlert exGate 61001 61002 False True exOpp
       = (True, exGate\<lparr>lastAlertTime := (lastAlertTime exGate)(''0xc1'' \<mapsto> 61002)\<rparr>)
   \<and> sendArbitrageAlert exGate 61001 61002 False False exOpp = (False, exGate)
   \<and> shouldSendAlert (snd (sendArbitrageAlert exGate 61001 61002 False False exOpp)) 70000
        (marketId exOpp)"
proof -
  have m: "marketId exOpp = ''0xc1''" by (simp add: exOpp_def)
  have l: "lastAlertTime exGate ''0xc1'' = Some 1000" by (simp add: exGate_def)
  have cd: "cooldownMs exGate = 60000" by (simp add: exGate_def)
  have cf: "configured exGate" by (simp add: exGate_def)
  have s1: "\<not> shouldSendAlert exGate 61000 (marketId exOpp)"
    using C6_alert_gate_cooldown [of exGate 61000 exOpp 61000 True True] m l cd by simp
  have s2: "shouldSendAlert exGate 61001 (marketId exOpp)"
    using C6_alert_gate_cooldown [of exGate 61001 exOpp 61002 False True] m l cd by simp
  show ?thesis
    using s1 s2 C6_alert_gate_cooldown [of exGate 61001 exOpp 61002 False True]
      C6_alert_gate_cooldown [of exGate 61001 exOpp 61002 False False] m l cd cf
    by auto
qed

section \<open>Duplicate catalog entries\<close>

lemma findIndex_None_iff: "findIndex P xs = None \<longleftrightarrow> (\<forall>x \<in> set xs. \<not> P x)"
  by (induction xs) auto

lemma findIndex_Some:
  "findIndex P xs = Some i \<Longrightarrow> i < length xs \<and> P (xs ! i) \<and> (\<forall>j < i. \<not> P (xs ! j))"
proof (induction xs arbitrary: i)
  case Nil
  then show ?case by simp
next
  case (Cons x xs)
  show ?case
  proof (cases "P x")
    case True
    with Cons.prems show ?thesis by simp
  next
    case False
    with Cons.prems obtain k where k: "findIndex P xs = Some k" "i = Suc k"
      by auto
    from Cons.IH [OF k(1)] False k(2) show ?thesis
      by (auto simp add: nth_Cons split: nat.splits)
  qed
qed

lemma scanMarket_marketId:
  "scanMarket cfg now getBook m = Some opp \<Longrightarrow> marketId opp = condition_id m"
  by (auto simp add: scanMarket_def scanMarket_try_def buildOpportunity_def Let_def
      split: option.splits list.splits if_splits sum.splits)

lemma TerminalServer_addAlert_alerts:
  "map alertOpportunity (alerts (TerminalServer_addAlert now st opp))
     = take 100 (opp # map alertOpportunity (alerts st))"
  by (simp add: TerminalServer_addAlert_def Let_def take_map)

lemma setScanning_alerts: "alerts (setScanning b t) = alerts t"
  by (simp add: setScanning_def)

lemma updateStats_alerts: "alerts (updateStats now t st) = alerts t"
  by (simp add: updateStats_def)

text \<open>
  C4 asks for at most one opportunity record per market in one cycle. In the service
  this fails: on a catalog that lists the example market twice, \<open>runScan\<close> returns two
  records with the same market id, and \<open>TerminalServer.addAlert\<close> puts both in front
  of the alert list instead of replacing the first by the second.
\<close>

theorem C4_duplicate_markets_appended:
  "map marketId (fst (runScan
       (exEnv [exMarket, exMarket] (exBooks (Some (exBook (rd 0.42) (rd 0.40)))
                                            (Some (exBook (rd 0.55) (rd 0.53)))))
       exService)) = [''0xc1'', ''0xc1'']
   \<and> map (\<lambda>a. marketId (alertOpportunity a))
       (case terminalServer (snd (runScan
          (exEnv [exMarket, exMarket] (exBooks (Some (exBook (rd 0.42) (rd 0.40)))
                                               (Some (exBook (rd 0.55) (rd 0.53)))))
          exService)) of None \<Rightarrow> [] | Some t \<Rightarrow> alerts t) = [''0xc1'', ''0xc1'']"
proof -
  let ?g = "exBooks (Some (exBook (rd 0.42) (rd 0.40))) (Some (exBook (rd 0.55) (rd 0.53)))"
  let ?env = "exEnv [exMarket, exMarket] ?g"
  obtain opp where opp: "scanMarket DEFAULT_CONFIG 0 ?g exMarket = Some opp"
    using ex_scan_097 by blast
  have mid: "marketId opp = ''0xc1''"
    using scanMarket_marketId [OF opp] by (simp add: exMarket_def)
  have act: "active exMarket \<and> \<not> closed_m exMarket"
    by (simp add: exMarket_def)
  have idle: "\<not> isScanning exService"
    by (simp add: exService_def)
  obtain t0 where t0: "terminalServer (runScan_enter exService) = Some t0" "alerts t0 = []"
    by (simp add: runScan_enter_def exService_def setScanning_def)
  have cfg: "svc_config (runScan_enter exService) = DEFAULT_CONFIG"
    by (simp add: runScan_enter_def exService_def)
  have found: "batchedScan 10 (scanMarket DEFAULT_CONFIG 0 ?g) [exMarket, exMarket] = [opp, opp]"
    using opp by (simp add: batchedScan_map_filter List.map_filter_simps)
  have srt: "sortBy byNetProfit [opp, opp] = [opp, opp]"
    by (simp add: sortBy_def)
  have r1: "fst (runScan_try ?env (runScan_enter exService)) = [opp, opp]"
    using act found cfg srt by (simp add: runScan_try_def exEnv_def Let_def)
  have r2: "map_option (\<lambda>t. map alertOpportunity (alerts t))
              (terminalServer (snd (runScan_try ?env (runScan_enter exService))))
            = Some [opp, opp]"
    using act found cfg t0 srt
    by (simp add: runScan_try_def exEnv_def Let_def TerminalServer_addAlert_alerts
        updateStats_alerts)
  have res: "fst (runScan ?env exService) = [opp, opp]"
    using idle r1 by (simp add: runScan_def Let_def)
  have r3: "map_option (\<lambda>t. map alertOpportunity (alerts t))
              (terminalServer (snd (runScan ?env exService)))
            = Some [opp, opp]"
    using idle r2
    by (simp add: runScan_def Let_def runScan_finally_def option.map_comp comp_def
        setScanning_alerts)
  then obtain t where t: "terminalServer (snd (runScan ?env exService)) = Some t"
    "map alertOpportunity (alerts t) = [opp, opp]"
    by auto
  have "map (\<lambda>a. marketId (alertOpportunity a)) (alerts t)
        = map marketId (map alertOpportunity (alerts t))"
    by (simp add: comp_def)
  then have "map (\<lambda>a. marketId (alertOpportunity a)) (alerts t) = [''0xc1'', ''0xc1'']"
    using t(2) mid by simp
  then show ?thesis
    using res t(1) mid by simp
qed

text \<open>
  The standalone server does what the claim asks: \<open>PolyClaudeServer.addAlert\<close> keeps
  the condition ids of its alerts distinct and overwrites the record of a market that is
  already listed, at its index.
\<close>

lemma PolyClaudeServer_addAlert_alerts:
  "srv_alerts (PolyClaudeServer_addAlert srv opp) =
     take 100 (case findIndex (\<lambda>a. marketId a = marketId opp) (srv_alerts srv) of
                 Some idx \<Rightarrow> (srv_alerts srv)[idx := opp]
               | None \<Rightarrow> opp # srv_alerts srv)"
  by (simp add: PolyClaudeServer_addAlert_def Let_def split: option.splits)

lemma PolyClaudeServer_addAlert_distinct:
  assumes "distinct (map marketId (srv_alerts srv))"
  shows "distinct (map marketId (srv_alerts (PolyClaudeServer_addAlert srv opp)))"
proof (cases "findIndex (\<lambda>a. marketId a = marketId opp) (srv_alerts srv)")
  case None
  then have "marketId opp \<notin> set (map marketId (srv_alerts srv))"
    by (auto simp add: findIndex_None_iff)
  with assms have "distinct (map marketId (opp # srv_alerts srv))"
    by simp
  then have "distinct (take 100 (map marketId (opp # srv_alerts srv)))"
    by (rule distinct_take)
  then have "distinct (map marketId (take 100 (opp # srv_alerts srv)))"
    by (simp only: take_map)
  then show ?thesis
    using None by (simp only: PolyClaudeServer_addAlert_alerts option.case)
next
  case (Some idx)
  from findIndex_Some [OF Some]
  have "idx < length (srv_alerts srv)" "marketId (srv_alerts srv ! idx) = marketId opp"
    by simp_all
  then have "map marketId ((srv_alerts srv)[idx := opp]) = map marketId (srv_alerts srv)"
    by (simp add: map_update list_update_same_conv)
  with assms have "distinct (take 100 (map marketId ((srv_alerts srv)[idx := opp])))"
    by (simp add: distinct_take)
  then have "distinct (map marketId (take 100 ((srv_alerts srv)[idx := opp])))"
    by (simp only: take_map)
  then show ?thesis
    using Some by (simp only: PolyClaudeServer_addAlert_alerts option.case)
qed

lemma PolyClaudeServer_addAlert_replaces:
  assumes "findIndex (\<lambda>a. marketId a = marketId opp) (srv_alerts srv) = Some idx"
    and "length (srv_alerts srv) \<le> 100"
  shows "srv_alerts (PolyClaudeServer_addAlert srv opp) = (srv_alerts srv)[idx := opp]"
  using assms by (simp add: PolyClaudeServer_addAlert_alerts)

section \<open>Near misses\<close>

text \<open>
  C5 asks that a market enters the near-miss list only when no opportunity was
  accepted for it in the cycle. The standalone scanner records the near miss before it
  decides on the opportunity: with asks 0.42 and 0.55 the deviation is
  0.030000000000000027, the market is put on the near-miss list, and the same call
  returns an opportunity for it. The endpoint's \<open>analyzeMarket\<close> does exclude it
  (\<open>!arbitrage\<close>).
\<close>

theorem C5_near_miss_and_opportunity:
  "fst (scanMarketForArbitrage (srv_config exServer) 0
          (exBooks (Some (exBook (rd 0.42) (rd 0.40))) (Some (exBook (rd 0.55) (rd 0.53))))
          exMarket (srv_tracking exServer)) \<noteq> None
   \<and> map nm_slug (nearMisses (snd (scanMarketForArbitrage (srv_config exServer) 0
          (exBooks (Some (exBook (rd 0.42) (rd 0.40))) (Some (exBook (rd 0.55) (rd 0.53))))
          exMarket (srv_tracking exServer)))) = [''rain-tomorrow'']
   \<and> map nm_deviation (nearMisses (snd (scanMarketForArbitrage (srv_config exServer) 0
          (exBooks (Some (exBook (rd 0.42) (rd 0.40))) (Some (exBook (rd 0.55) (rd 0.53))))
          exMarket (srv_tracking exServer)))) = [Number (135107988821115 / 4503599627370496)]
   \<and> (case analyzeMarket
             (exBooks (Some (exBook (rd 0.42) (rd 0.40))) (Some (exBook (rd 0.55) (rd 0.53))))
             exMarket
       of None \<Rightarrow> False | Some a \<Rightarrow> \<not> isNearMiss a \<and> arbitrage a \<noteq> None)"
proof -
  let ?g = "exBooks (Some (exBook (rd 0.42) (rd 0.40))) (Some (exBook (rd 0.55) (rd 0.53)))"
  have yes: "?g ''yes'' = Some (exBook (rd 0.42) (rd 0.40))"
    and no: "?g ''no'' = Some (exBook (rd 0.55) (rd 0.53))"
    by (simp_all add: ex_books)
  have trk: "srv_tracking exServer = \<lparr>nearMisses = [], liveMarkets = []\<rparr>"
    by (simp add: exServer_def)
  have built: "buildOpportunity (srv_config exServer) 0 exMarket ''yes'' ''no''
      (Number 1000) (Number 1000) (rd 0.42) (rd 0.40) (rd 0.55) (rd 0.53) \<noteq> None"
    by (rule ex_build_097) (simp_all add: exServer_def)
  have cask: "js_add (rd 0.42) (rd 0.55) = Number (4368491638549381 / 4503599627370496)"
    and dev: "js_abs (js_sub (Number 1) (Number (4368491638549381 / 4503599627370496)))
                = Number (135107988821115 / 4503599627370496)"
    by (simp_all add: js_sub_def rd_vals)
  have win: "js_gt (Number (135107988821115 / 4503599627370496)) (Number 0)
      \<and> js_le (Number (135107988821115 / 4503599627370496)) (rd 0.05)
      \<and> js_gt (js_sub (Number 1) (Number (4368491638549381 / 4503599627370496))) (rd 0.001)"
    by (simp add: js_le_def js_sub_def rd_vals)
  have nm: "map nm_slug (addNearMiss 0 [] exMarket (rd 0.42) (rd 0.55) (rd 0.40) (rd 0.53)
                (Number (4368491638549381 / 4503599627370496)) cb) = [''rain-tomorrow'']
      \<and> map nm_deviation (addNearMiss 0 [] exMarket (rd 0.42) (rd 0.55) (rd 0.40) (rd 0.53)
                (Number (4368491638549381 / 4503599627370496)) cb)
          = [Number (135107988821115 / 4503599627370496)]" for cb
    unfolding addNearMiss_def Let_def dev
    by (simp add: popOver_take exMarket_def MAX_NEAR_MISSES_def)
  have scan: "fst (scanMarketForArbitrage (srv_config exServer) 0 ?g exMarket
                (srv_tracking exServer))
        = buildOpportunity (srv_config exServer) 0 exMarket ''yes'' ''no''
            (Number 1000) (Number 1000) (rd 0.42) (rd 0.40) (rd 0.55) (rd 0.53)
      \<and> nearMisses (snd (scanMarketForArbitrage (srv_config exServer) 0 ?g exMarket
                (srv_tracking exServer)))
        = addNearMiss 0 [] exMarket (rd 0.42) (rd 0.55) (rd 0.40) (rd 0.53)
            (Number (4368491638549381 / 4503599627370496)) (js_add (rd 0.40) (rd 0.53))"
    unfolding scanMarketForArbitrage_def ex_tokens Let_def
    using yes no ex_prices_097 win
    by (simp only: list.case option.case prod.case ex_liquidity trk cask dev
        fst_conv snd_conv if_True tracking.simps simp_thms)
  have an: "case analyzeMarket ?g exMarket
       of None \<Rightarrow> False | Some a \<Rightarrow> \<not> isNearMiss a \<and> arbitrage a \<noteq> None"
    unfolding analyzeMarket_def ex_tokens Let_def
    using yes no ex_prices_097 win
    by (simp only: list.case option.case prod.case cask dev if_True analysis.simps
        simp_thms option.distinct)
  show ?thesis
    using built an scan nm by simp
qed

section \<open>Invariants of the near-miss list\<close>

text \<open>
  What \<open>addNearMiss\<close> does keep: the list stays sorted by deviation (the deviations
  on the list are finite: an entry is added only for a deviation in the window), holds
  one entry per slug and never exceeds its capacity.
\<close>

lemma sorted_spliceOut:
  assumes "sorted (map f xs)"
  shows "sorted (map f (spliceOut i xs))"
proof -
  have "sorted (map f (take i xs @ drop i xs))"
    using assms by simp
  then have s: "sorted (map f (take i xs))" "sorted (map f (drop i xs))"
    "\<forall>x \<in> set (take i xs). \<forall>y \<in> set (drop i xs). f x \<le> f y"
    by (auto simp add: sorted_append simp del: append_take_drop_id)
  have sub: "set (drop (Suc i) xs) \<subseteq> set (drop i xs)"
    by (rule set_drop_subset_set_drop) simp
  have "sorted (map f (drop (Suc i) xs))"
    using assms by (simp add: sorted_wrt_drop drop_map [symmetric] del: drop_map)
  then show ?thesis
    using s sub by (auto simp add: spliceOut_def sorted_append)
qed

lemma sorted_insert_at:
  assumes "sorted (map f xs)" and that: "f x = d"
  shows "sorted (map f (case findIndex (\<lambda>n. f n > d) xs of
                          None \<Rightarrow> xs @ [x] | Some i \<Rightarrow> spliceIn i x xs))"
proof (cases "findIndex (\<lambda>n. f n > d) xs")
  case None
  then have "\<forall>y \<in> set xs. f y \<le> d"
    by (auto simp add: findIndex_None_iff not_less)
  then show ?thesis
    using None assms(1) that by (simp add: sorted_append)
next
  case (Some i)
  from findIndex_Some [OF Some]
  have i: "i < length xs" "d < f (xs ! i)" "\<forall>j < i. f (xs ! j) \<le> d"
    by (auto simp add: not_less)
  have "sorted (map f (take i xs @ drop i xs))"
    using assms(1) by simp
  then have s: "sorted (map f (take i xs))" "sorted (map f (drop i xs))"
    by (auto simp add: sorted_append simp del: append_take_drop_id)
  have before: "\<forall>y \<in> set (take i xs). f y \<le> d"
    using i by (auto simp add: in_set_conv_nth)
  have hd: "drop i xs = xs ! i # drop (Suc i) xs"
    using i(1) by (simp add: Cons_nth_drop_Suc)
  have after: "\<forall>y \<in> set (drop i xs). d \<le> f y"
  proof
    fix y assume "y \<in> set (drop i xs)"
    then have "y = xs ! i \<or> y \<in> set (drop (Suc i) xs)"
      using hd by (metis set_ConsD)
    moreover have "\<forall>z \<in> set (drop (Suc i) xs). f (xs ! i) \<le> f z"
      using s(2) hd by (metis list.simps(9) sorted_simps(2) image_eqI list.set_map)
    ultimately show "d \<le> f y"
      using i(2) by force
  qed
  have cross: "\<forall>a \<in> set (take i xs). \<forall>b \<in> set (drop i xs). f a \<le> f b"
    using before after by (meson order_trans)
  show ?thesis
    using Some s before after cross that
    by (auto simp add: spliceIn_def sorted_append)
qed

lemma findIndex_cong:
  "(\<And>x. x \<in> set xs \<Longrightarrow> P x = Q x) \<Longrightarrow> findIndex P xs = findIndex Q xs"
  by (induction xs) simp_all

lemma addNearMiss_sorted:
  assumes fin: "\<forall>n \<in> set nms. \<exists>x. nm_deviation n = Number x"
    and srt: "sorted (map (\<lambda>n. numval (nm_deviation n)) nms)"
    and new: "js_abs (js_sub (Number 1) cAsk) = Number d"
  shows "sorted (map (\<lambda>n. numval (nm_deviation n))
           (addNearMiss now nms m ya na yb nb cAsk cBid))"
proof -
  let ?nms1 = "case findIndex (\<lambda>n. nm_slug n = market_slug m) nms of
                 None \<Rightarrow> nms | Some existingIdx \<Rightarrow> spliceOut existingIdx nms"
  have sub: "set ?nms1 \<subseteq> set nms"
    by (auto simp add: spliceOut_def split: option.splits dest: in_set_takeD in_set_dropD)
  have s1: "sorted (map (\<lambda>n. numval (nm_deviation n)) ?nms1)"
    using srt by (simp add: sorted_spliceOut split: option.splits)
  have idx: "findIndex (\<lambda>n. js_gt (nm_deviation n) (Number d)) ?nms1
           = findIndex (\<lambda>n. numval (nm_deviation n) > d) ?nms1"
  proof (rule findIndex_cong)
    fix x assume "x \<in> set ?nms1"
    then obtain v where "nm_deviation x = Number v" using fin sub by blast
    then show "js_gt (nm_deviation x) (Number d) = (numval (nm_deviation x) > d)" by simp
  qed
  show ?thesis
    unfolding addNearMiss_def Let_def popOver_take take_map [symmetric] new idx
    by (intro sorted_wrt_take sorted_insert_at s1) simp
qed

lemma addNearMiss_length:
  "length (addNearMiss now nms m ya na yb nb cAsk cBid) \<le> MAX_NEAR_MISSES"
  by (simp add: addNearMiss_def Let_def popOver_take)

lemma spliceOut_first_key:
  assumes "distinct (map k xs)" and "findIndex (\<lambda>n. k n = v) xs = Some i"
  shows "v \<notin> k ` set (spliceOut i xs)" and "distinct (map k (spliceOut i xs))"
proof -
  from findIndex_Some [OF assms(2)] have i: "i < length xs" "k (xs ! i) = v"
    by simp_all
  have xs: "xs = take i xs @ xs ! i # drop (Suc i) xs"
    using i(1) by (simp add: id_take_nth_drop)
  have "distinct (map k (take i xs @ xs ! i # drop (Suc i) xs))"
    using assms(1) xs by simp
  then show "v \<notin> k ` set (spliceOut i xs)" and "distinct (map k (spliceOut i xs))"
    using i(2) by (auto simp add: spliceOut_def)
qed

lemma remove_step_distinct:
  assumes "distinct (map k xs)"
  shows "distinct (map k (case findIndex (\<lambda>n. k n = v) xs of
                            None \<Rightarrow> xs | Some i \<Rightarrow> spliceOut i xs))"
    and "v \<notin> k ` set (case findIndex (\<lambda>n. k n = v) xs of
                            None \<Rightarrow> xs | Some i \<Rightarrow> spliceOut i xs)"
  using assms spliceOut_first_key [where k = k and xs = xs and v = v]
  by (auto simp add: findIndex_None_iff split: option.splits)

lemma insert_step_distinct:
  assumes "distinct (map k xs)" and "k x = v" and "v \<notin> k ` set xs"
  shows "distinct (map k (case findIndex P xs of
                            None \<Rightarrow> xs @ [x] | Some i \<Rightarrow> spliceIn i x xs))"
proof (cases "findIndex P xs")
  case None
  then show ?thesis using assms by auto
next
  case (Some i)
  have "distinct (map k (take i xs @ drop i xs))"
    using assms(1) by simp
  moreover have "set (take i xs) \<subseteq> set xs" "set (drop i xs) \<subseteq> set xs"
    by (auto dest: in_set_takeD in_set_dropD)
  ultimately show ?thesis
    using Some assms(2,3) by (auto simp add: spliceIn_def simp del: append_take_drop_id)
qed

lemma addNearMiss_distinct:
  assumes "distinct (map nm_slug nms)"
  shows "distinct (map nm_slug (addNearMiss now nms m ya na yb nb cAsk cBid))"
  unfolding addNearMiss_def Let_def popOver_take take_map [symmetric]
  apply (rule distinct_take)
  apply (rule insert_step_distinct [where v = "market_slug m"])
    apply (rule remove_step_distinct(1) [OF assms])
   apply simp
  apply (rule remove_step_distinct(2) [OF assms])
  done

end
